theory Spec2Isabelle
  imports Main "HOL-Library.Multiset" "HOL-Library.Word"
begin

section \<open>Strings\<close>

text \<open>
  A Go \<open>string\<close> is a sequence of bytes, and \<open>len\<close> counts bytes; it is modelled as
  \<^typ>\<open>string\<close>, a list of 8-bit characters. A code point beyond ASCII is encoded in UTF-8 by
  bytes that are all at least \<open>0x80\<close>.
\<close>

text \<open>
  \<open>strings.ReplaceAll(s, old, new)\<close> of the Go standard library, for a non-empty \<open>old\<close>:
  the non-overlapping occurrences of \<open>old\<close> are replaced from left to right. (For an
  empty \<open>old\<close> the library inserts \<open>new\<close> at every rune boundary; \<open>sanitizeFolderName\<close>
  never calls it so, and the model returns \<open>s\<close> there.)
\<close>

function ReplaceAll :: "string \<Rightarrow> string \<Rightarrow> string \<Rightarrow> string" where
  "ReplaceAll [] old new = []"
| "ReplaceAll (c # s) old new =
     (if old \<noteq> [] \<and> take (length old) (c # s) = old
      then new @ ReplaceAll (drop (length old) (c # s)) old new
      else c # ReplaceAll s old new)"
  by pat_completeness auto
termination
  by (relation "measure (\<lambda>(s, old, new). length s)") auto

section \<open>The name sanitizer\<close>

text \<open>The slice \<open>invalid\<close> of \<open>sanitizeFolderName\<close>; \<open>CHR 0x5C\<close> is the backslash and
  \<open>CHR 0x22\<close> the double quote.\<close>

definition invalid :: "string list" where
  "invalid = [''/'', [CHR 0x5C], '':'', ''*'', ''?'', [CHR 0x22], ''<'', ''>'', ''|'']"

definition sanitizeFolderName :: "string \<Rightarrow> string" where
  "sanitizeFolderName name = foldl (\<lambda>result char. ReplaceAll result char ''_'') name invalid"

text \<open>The reserved set of the specification, as a set of characters.\<close>

definition reserved :: "char set" where
  "reserved = {CHR ''/'', CHR 0x5C, CHR '':'', CHR ''*'', CHR ''?'', CHR 0x22, CHR ''<'',
     CHR ''>'', CHR ''|''}"


section \<open>The topology tree\<close>

text \<open>
  The structs \<open>Container\<close>, \<open>Graph\<close>, \<open>GraphMeta\<close> and \<open>MetadataLayout\<close> refer to each other,
  so they are one family of datatypes. A Go slice that is \<open>nil\<close> or empty is the empty
  list, except \<open>MetadataLayout.Containers\<close>, which the program compares with \<open>nil\<close>: it is
  an optional list, \<open>None\<close> for \<open>nil\<close>.
\<close>

datatype Container =
  Container (ParentEntityID: string) (ContainerName: string) (Graphs: "Graph list")
and Graph =
  Graph (GraphName: string) (GraphMetadata: "GraphMeta list")
and GraphMeta =
  GraphMeta (LegendName: string) (EntityID: string) (MetricID: string)
    (MetadataLayout: MetadataLayout)
and MetadataLayout =
  MetadataLayout (Containers: "Container list option")

section \<open>The configuration\<close>

text \<open>
  A \<open>float64\<close> is carried as its 64-bit IEEE-754 pattern: the program copies the bounds and
  never computes with them. A \<open>*float64\<close> is an optional one, \<open>None\<close> for \<open>nil\<close>.
\<close>

type_synonym float64 = "64 word"

record Incident =
  Severity :: string
  Enabled :: bool

record DefaultConfig =
  EmailConfigName :: string
  SlackConfigName :: string
  IncidentSevTwoConfigName :: string
  IncidentSevThreeConfigName :: string
  IncidentSevFourConfigName :: string
  Incident :: Incident

record EntityIDs =
  EntityIds :: "string list"

record MetricThreshold =
  EntityID :: string
  MetricID :: string
  ParentEntityID :: string
  ContainerName :: string
  GraphName :: string
  LegendName :: string
  Min :: "float64 option"
  Max :: "float64 option"
  Incident :: string

record Entity =
  Name :: string
  ID :: string
  Ignore :: EntityIDs
  Whitelist :: EntityIDs
  MetricThresholds :: "MetricThreshold list"

record Source =
  DefaultConfig :: DefaultConfig
  Entity :: Entity

record Config =
  Source :: Source

section \<open>The configuration of one container\<close>

text \<open>
  The Go map \<open>uniqueThresholds\<close> is an association list with distinct keys. The list keeps
  the entries in the order of their insertion, which the program cannot observe: a
  \<open>range\<close> over a Go map visits every entry once, in an order that the runtime chooses
  anew each time. \<open>is_range_order m kvs\<close> says that \<open>kvs\<close> is such an order for the map
  \<open>m\<close>.
\<close>

type_synonym thresholdMap = "(string \<times> MetricThreshold) list"

definition is_range_order :: "thresholdMap \<Rightarrow> thresholdMap \<Rightarrow> bool" where
  "is_range_order m kvs = (mset kvs = mset m)"

text \<open>The body of the innermost loop of \<open>createContainerYaml\<close>, for one \<open>meta\<close> and one
  \<open>threshold\<close>.\<close>

definition thresholdStep :: "GraphMeta \<Rightarrow> thresholdMap \<Rightarrow> MetricThreshold \<Rightarrow> thresholdMap" where
  "thresholdStep meta uniqueThresholds threshold =
     (if MetricThreshold.EntityID threshold = GraphMeta.EntityID meta
         \<and> MetricThreshold.MetricID threshold = GraphMeta.MetricID meta
      then (let key = MetricThreshold.EntityID threshold @ ''-'' @ MetricThreshold.MetricID threshold
            in if map_of uniqueThresholds key = None
               then uniqueThresholds @ [(key, threshold)]
               else uniqueThresholds)
      else uniqueThresholds)"

text \<open>The three nested loops that fill the map.\<close>

definition uniqueThresholds :: "Config \<Rightarrow> Container \<Rightarrow> thresholdMap" where
  "uniqueThresholds config container =
     foldl (\<lambda>u graph.
        foldl (\<lambda>u meta.
           foldl (thresholdStep meta) u (MetricThresholds (Entity (Source config))))
         u (GraphMetadata graph))
      [] (Graphs container)"

text \<open>
  \<open>createContainerYaml\<close>. The first argument is the order in which the final \<open>range\<close>
  visits the map it is given; the properties below assume of it what Go guarantees,
  \<open>is_range_order\<close>.
\<close>

definition createContainerYaml ::
  "(thresholdMap \<Rightarrow> thresholdMap) \<Rightarrow> Config \<Rightarrow> Container \<Rightarrow> Config" where
  "createContainerYaml rangeOrder config container =
     (let newConfig = \<lparr>Source = \<lparr>
            DefaultConfig = DefaultConfig (Source config),
            Entity = \<lparr>
              Name = Name (Entity (Source config)),
              ID = ID (Entity (Source config)),
              Ignore = Ignore (Entity (Source config)),
              Whitelist = Whitelist (Entity (Source config)),
              MetricThresholds = []\<rparr>\<rparr>\<rparr>
      in foldl (\<lambda>newConfig (key, threshold).
            newConfig\<lparr>Source := (Source newConfig)\<lparr>Entity := (Entity (Source newConfig))
              \<lparr>MetricThresholds :=
                 MetricThresholds (Entity (Source newConfig)) @ [threshold]\<rparr>\<rparr>\<rparr>)
          newConfig (rangeOrder (uniqueThresholds config container)))"

text \<open>The pair of identifiers of a threshold and of a graph-metadata entry, and the
  pairs that the metadata directly under a container's own graphs refer to.\<close>

definition thresholdPair :: "MetricThreshold \<Rightarrow> string \<times> string" where
  "thresholdPair t = (MetricThreshold.EntityID t, MetricThreshold.MetricID t)"

definition metaPair :: "GraphMeta \<Rightarrow> string \<times> string" where
  "metaPair m = (GraphMeta.EntityID m, GraphMeta.MetricID m)"

definition ownMetas :: "Container \<Rightarrow> GraphMeta list" where
  "ownMetas container = concat (map GraphMetadata (Graphs container))"

definition derivedThresholds ::
  "(thresholdMap \<Rightarrow> thresholdMap) \<Rightarrow> Config \<Rightarrow> Container \<Rightarrow> MetricThreshold list" where
  "derivedThresholds rangeOrder config container =
     MetricThresholds (Entity (Source (createContainerYaml rangeOrder config container)))"

section \<open>Paths\<close>

text \<open>
  \<open>strings.Join\<close>, and \<open>filepath.Clean\<close> and \<open>filepath.Join\<close> of the Go standard library
  on a system whose separator is the slash. \<open>Clean\<close> works on the elements between
  slashes: empty elements and \<open>.\<close> are dropped, \<open>..\<close> removes the element before it, is
  dropped at the root, and is kept at the start of a relative path; an empty result is
  \<open>.\<close>. \<open>Join\<close> drops leading empty elements, joins the others with slashes and cleans the
  result; it returns the empty string when every element is empty.
\<close>

fun strings_Join :: "string list \<Rightarrow> string \<Rightarrow> string" where
  "strings_Join [] sep = []"
| "strings_Join [e] sep = e"
| "strings_Join (e # es) sep = e @ sep @ strings_Join es sep"

fun splitSep :: "string \<Rightarrow> string list" where
  "splitSep [] = [[]]"
| "splitSep (c # s) =
     (if c = CHR ''/'' then [] # splitSep s
      else (case splitSep s of [] \<Rightarrow> [[c]] | e # es \<Rightarrow> (c # e) # es))"

fun cleanElems :: "bool \<Rightarrow> string list \<Rightarrow> string list \<Rightarrow> string list" where
  "cleanElems rooted out [] = rev out"
| "cleanElems rooted out (e # es) =
     (if e = [] \<or> e = ''.'' then cleanElems rooted out es
      else if e = ''..'' then
        (if out \<noteq> [] \<and> hd out \<noteq> ''..'' then cleanElems rooted (tl out) es
         else if rooted then cleanElems rooted out es
         else cleanElems rooted (e # out) es)
      else cleanElems rooted (e # out) es)"

definition Clean :: "string \<Rightarrow> string" where
  "Clean path =
     (if path = [] then ''.''
      else let rooted = (hd path = CHR ''/'');
               out = (if rooted then ''/'' else []) @
                     strings_Join (cleanElems rooted [] (splitSep path)) ''/''
           in if out = [] then ''.'' else out)"

definition Join :: "string list \<Rightarrow> string" where
  "Join elem =
     (case dropWhile (\<lambda>e. e = []) elem of
        [] \<Rightarrow> []
      | es \<Rightarrow> Clean (strings_Join es ''/''))"

section \<open>The materializer\<close>

text \<open>
  The program touches the file system through \<open>os.MkdirAll\<close> and \<open>ioutil.WriteFile\<close> only.
  The state of a run is the list of the calls made so far, oldest first (the permission
  arguments are constants and left out). What is outside the program is an environment:
  \<open>os_error E w c\<close> is the error that the operating system returns for the call \<open>c\<close> made
  after the calls \<open>w\<close> (\<open>None\<close> when the call succeeds), \<open>yaml_Marshal E\<close> is the
  serializer, \<open>Inl\<close> its error, and \<open>range_order E w\<close> is the order in which a \<open>range\<close>
  over a map runs after the calls \<open>w\<close>.
\<close>

datatype fsop = MkdirAll string | WriteFile string string

record env =
  os_error :: "fsop list \<Rightarrow> fsop \<Rightarrow> string option"
  yaml_Marshal :: "Config \<Rightarrow> string + string"
  range_order :: "fsop list \<Rightarrow> thresholdMap \<Rightarrow> thresholdMap"

definition call :: "env \<Rightarrow> fsop \<Rightarrow> fsop list \<Rightarrow> string option \<times> fsop list" where
  "call E c w = (os_error E w c, w @ [c])"

text \<open>
  What \<open>createStructureAndYaml\<close> does for one container once \<open>currentPath\<close> is computed, up
  to the nested containers: the directory, the derived configuration, its serialization
  and the file. It returns the error (\<open>None\<close> for \<open>nil\<close>) and the calls made.
\<close>

definition writeContainer ::
  "env \<Rightarrow> string \<Rightarrow> Config \<Rightarrow> Container \<Rightarrow> fsop list \<Rightarrow> string option \<times> fsop list" where
  "writeContainer E currentPath yamlConfig container w =
     (case call E (MkdirAll currentPath) w of
        (Some err, w1) \<Rightarrow>
          (Some (''error creating directory '' @ currentPath @ '': '' @ err), w1)
      | (None, w1) \<Rightarrow>
         (let containerYaml = createContainerYaml (range_order E w1) yamlConfig container
          in case yaml_Marshal E containerYaml of
               Inl err \<Rightarrow>
                 (Some (''error marshaling YAML for '' @ Container.ContainerName container
                        @ '': '' @ err), w1)
             | Inr yamlData \<Rightarrow>
                (let yamlPath = Join [currentPath, ''config.yaml'']
                 in case call E (WriteFile yamlPath yamlData) w1 of
                      (Some err, w2) \<Rightarrow>
                        (Some (''error writing YAML file '' @ yamlPath @ '': '' @ err), w2)
                    | (None, w2) \<Rightarrow> (None, w2))))"

text \<open>
  \<open>createStructureAndYaml\<close>. Its loops over the graphs of a container and over the
  metadata of a graph are the functions \<open>nestedGraphs\<close> and \<open>nestedMetas\<close>; a \<open>return\<close>
  inside them leaves all three.
\<close>

fun createStructureAndYaml ::
    "env \<Rightarrow> string \<Rightarrow> Container list \<Rightarrow> Config \<Rightarrow> fsop list \<Rightarrow> string option \<times> fsop list"
  and nestedGraphs ::
    "env \<Rightarrow> string \<Rightarrow> Graph list \<Rightarrow> Config \<Rightarrow> fsop list \<Rightarrow> string option \<times> fsop list"
  and nestedMetas ::
    "env \<Rightarrow> string \<Rightarrow> GraphMeta list \<Rightarrow> Config \<Rightarrow> fsop list \<Rightarrow> string option \<times> fsop list"
where
  "createStructureAndYaml E basePath [] yamlConfig w = (None, w)"
| "createStructureAndYaml E basePath (Container pe name graphs # containers) yamlConfig w =
     (case writeContainer E (Join [basePath, sanitizeFolderName name]) yamlConfig
             (Container pe name graphs) w of
        (Some err, w2) \<Rightarrow> (Some err, w2)
      | (None, w2) \<Rightarrow>
         (case nestedGraphs E (Join [basePath, sanitizeFolderName name]) graphs yamlConfig w2 of
            (Some err, w3) \<Rightarrow> (Some err, w3)
          | (None, w3) \<Rightarrow> createStructureAndYaml E basePath containers yamlConfig w3))"
| "nestedGraphs E currentPath [] yamlConfig w = (None, w)"
| "nestedGraphs E currentPath (Graph gn metas # graphs) yamlConfig w =
     (case nestedMetas E currentPath metas yamlConfig w of
        (Some err, w1) \<Rightarrow> (Some err, w1)
      | (None, w1) \<Rightarrow> nestedGraphs E currentPath graphs yamlConfig w1)"
| "nestedMetas E currentPath [] yamlConfig w = (None, w)"
| "nestedMetas E currentPath (GraphMeta ln ei mi (MetadataLayout.MetadataLayout None) # metas)
       yamlConfig w =
     nestedMetas E currentPath metas yamlConfig w"
| "nestedMetas E currentPath (GraphMeta ln ei mi (MetadataLayout.MetadataLayout (Some cs)) # metas)
       yamlConfig w =
     (case createStructureAndYaml E currentPath cs yamlConfig w of
        (Some err, w1) \<Rightarrow> (Some err, w1)
      | (None, w1) \<Rightarrow> nestedMetas E currentPath metas yamlConfig w1)"

text \<open>
  The containers of a tree in depth-first pre-order, each with the path the program
  computes for it: a container, then the containers nested in its graphs' metadata, graph
  by graph and entry by entry, then its later siblings.
\<close>

fun preorder :: "string \<Rightarrow> Container list \<Rightarrow> (string \<times> Container) list"
  and preorderGraphs :: "string \<Rightarrow> Graph list \<Rightarrow> (string \<times> Container) list"
  and preorderMetas :: "string \<Rightarrow> GraphMeta list \<Rightarrow> (string \<times> Container) list"
where
  "preorder basePath [] = []"
| "preorder basePath (Container pe name graphs # containers) =
     (Join [basePath, sanitizeFolderName name], Container pe name graphs)
       # preorderGraphs (Join [basePath, sanitizeFolderName name]) graphs
       @ preorder basePath containers"
| "preorderGraphs currentPath [] = []"
| "preorderGraphs currentPath (Graph gn metas # graphs) =
     preorderMetas currentPath metas @ preorderGraphs currentPath graphs"
| "preorderMetas currentPath [] = []"
| "preorderMetas currentPath (GraphMeta ln ei mi (MetadataLayout.MetadataLayout None) # metas) =
     preorderMetas currentPath metas"
| "preorderMetas currentPath (GraphMeta ln ei mi (MetadataLayout.MetadataLayout (Some cs)) # metas) =
     preorder currentPath cs @ preorderMetas currentPath metas"

text \<open>The number of containers of a tree.\<close>

fun countContainers :: "Container list \<Rightarrow> nat"
  and countGraphs :: "Graph list \<Rightarrow> nat"
  and countMetas :: "GraphMeta list \<Rightarrow> nat"
where
  "countContainers [] = 0"
| "countContainers (Container pe name graphs # containers) =
     Suc (countGraphs graphs + countContainers containers)"
| "countGraphs [] = 0"
| "countGraphs (Graph gn metas # graphs) = countMetas metas + countGraphs graphs"
| "countMetas [] = 0"
| "countMetas (GraphMeta ln ei mi (MetadataLayout.MetadataLayout None) # metas) = countMetas metas"
| "countMetas (GraphMeta ln ei mi (MetadataLayout.MetadataLayout (Some cs)) # metas) =
     countContainers cs + countMetas metas"

text \<open>
  Running \<open>writeContainer\<close> over a list of containers with their paths, in order, up to
  the first error.
\<close>

fun writeAll ::
  "env \<Rightarrow> Config \<Rightarrow> (string \<times> Container) list \<Rightarrow> fsop list \<Rightarrow> string option \<times> fsop list" where
  "writeAll E yamlConfig [] w = (None, w)"
| "writeAll E yamlConfig ((p, c) # vs) w =
     (case writeContainer E p yamlConfig c w of
        (Some err, w1) \<Rightarrow> (Some err, w1)
      | (None, w1) \<Rightarrow> writeAll E yamlConfig vs w1)"

text \<open>A call without the data written, and the two calls of a container at a path.\<close>

fun target :: "fsop \<Rightarrow> fsop" where
  "target (MkdirAll p) = MkdirAll p"
| "target (WriteFile p d) = WriteFile p []"

definition containerCalls :: "string \<times> Container \<Rightarrow> fsop list" where
  "containerCalls v = [MkdirAll (fst v), WriteFile (Join [fst v, ''config.yaml'']) []]"

text \<open>The directories that a list of calls creates or finds, each once.\<close>

definition directories :: "fsop list \<Rightarrow> string list" where
  "directories w = remdups (concat (map (\<lambda>c. case c of MkdirAll p \<Rightarrow> [p] | WriteFile p d \<Rightarrow> []) w))"

text \<open>Every call of a list, made in order after the calls \<open>w\<close>, succeeds.\<close>

fun succeed :: "env \<Rightarrow> fsop list \<Rightarrow> fsop list \<Rightarrow> bool" where
  "succeed E w [] = True"
| "succeed E w (c # cs) = (os_error E w c = None \<and> succeed E (w @ [c]) cs)"

section \<open>Auxiliary notions and example inputs\<close>

text \<open>The key under which \<open>createContainerYaml\<close> stores a threshold, the statement that
  appends one threshold to the new configuration, and a configuration with its threshold
  list replaced.\<close>

definition thresholdKey :: "MetricThreshold \<Rightarrow> string" where
  "thresholdKey t = MetricThreshold.EntityID t @ ''-'' @ MetricThreshold.MetricID t"

definition addThreshold :: "Config \<Rightarrow> MetricThreshold \<Rightarrow> Config" where
  "addThreshold newConfig threshold =
     newConfig\<lparr>Source := (Source newConfig)\<lparr>Entity := (Entity (Source newConfig))
       \<lparr>MetricThresholds := MetricThresholds (Entity (Source newConfig)) @ [threshold]\<rparr>\<rparr>\<rparr>"

definition setThresholds :: "Config \<Rightarrow> MetricThreshold list \<Rightarrow> Config" where
  "setThresholds c ts = c\<lparr>Source := (Source c)\<lparr>Entity := (Entity (Source c))\<lparr>MetricThresholds := ts\<rparr>\<rparr>\<rparr>"

text \<open>What holds of every entry of the map: it is stored under its key, it is a global
  threshold, and its pair is the pair of one of the given metadata entries.\<close>

definition entry_ok ::
  "MetricThreshold list \<Rightarrow> GraphMeta list \<Rightarrow> string \<times> MetricThreshold \<Rightarrow> bool" where
  "entry_ok globals metas e =
     (fst e = thresholdKey (snd e) \<and> snd e \<in> set globals
      \<and> thresholdPair (snd e) \<in> metaPair ` set metas)"

text \<open>Example inputs: a threshold and a metadata entry with given identifiers, a
  configuration with given thresholds, and an environment in which nothing fails, the
  serializer lists the keys of the thresholds, and \<open>range\<close> follows the insertion order.\<close>

definition exThreshold :: "string \<Rightarrow> string \<Rightarrow> float64 option \<Rightarrow> MetricThreshold" where
  "exThreshold e m lo =
     \<lparr>EntityID = e, MetricID = m, ParentEntityID = ''parent'', ContainerName = ''container'',
      GraphName = ''graph'', LegendName = ''legend'', Min = lo, Max = None, Incident = []\<rparr>"

definition exMeta :: "string \<Rightarrow> string \<Rightarrow> Container list option \<Rightarrow> GraphMeta" where
  "exMeta e m cs = GraphMeta ''legend'' e m (MetadataLayout.MetadataLayout cs)"

definition exConfig :: "MetricThreshold list \<Rightarrow> Config" where
  "exConfig ts =
     \<lparr>Source = \<lparr>
        DefaultConfig = \<lparr>EmailConfigName = ''mail'', SlackConfigName = ''slack'',
          IncidentSevTwoConfigName = ''sev2'', IncidentSevThreeConfigName = ''sev3'',
          IncidentSevFourConfigName = ''sev4'',
          Incident = \<lparr>Severity = ''SEV3'', Enabled = True\<rparr>\<rparr>,
        Entity = \<lparr>Name = ''entity'', ID = ''id'', Ignore = \<lparr>EntityIds = [''x'']\<rparr>,
          Whitelist = \<lparr>EntityIds = [''y'']\<rparr>, MetricThresholds = ts\<rparr>\<rparr>\<rparr>"

definition exMarshal :: "Config \<Rightarrow> string + string" where
  "exMarshal c = Inr (concat (map (\<lambda>t. thresholdKey t @ '';'') (MetricThresholds (Entity (Source c)))))"

definition exEnv :: env where
  "exEnv = \<lparr>os_error = (\<lambda>w c. None), yaml_Marshal = exMarshal, range_order = (\<lambda>w m. m)\<rparr>"

text \<open>Example containers and threshold lists: a container that refers to one pair from
  two graphs, with two thresholds for that pair (the second bound is the pattern of \<open>5.0\<close>);
  a container with a nested one, each referring to its own pair; and two pairs with the
  same key.\<close>

definition exTwice :: Container where
  "exTwice = Container ''root'' ''A''
     [Graph ''g1'' [exMeta ''E1'' ''M1'' None], Graph ''g2'' [exMeta ''E1'' ''M1'' None]]"

definition exSameKey :: "MetricThreshold list" where
  "exSameKey = [exThreshold ''E1'' ''M1'' (Some 0), exThreshold ''E1'' ''M1'' (Some 0x4014000000000000)]"

definition exNested :: Container where
  "exNested = Container ''root'' ''B'' [Graph ''g'' [exMeta ''E2'' ''M2'' None]]"

definition exOuter :: Container where
  "exOuter = Container ''root'' ''A'' [Graph ''g'' [exMeta ''E1'' ''M1'' (Some [exNested])]]"

definition exTwoKeys :: "MetricThreshold list" where
  "exTwoKeys = [exThreshold ''E1'' ''M1'' None, exThreshold ''E2'' ''M2'' None]"

definition exCollide :: "MetricThreshold list" where
  "exCollide = [exThreshold ''a-b'' ''c'' None, exThreshold ''a'' ''b-c'' None]"

definition exBoth :: Container where
  "exBoth = Container ''root'' ''A''
     [Graph ''g'' [exMeta ''a-b'' ''c'' None, exMeta ''a'' ''b-c'' None]]"

text \<open>Three thresholds, the first and the last with the same pair, whose key is also the
  key of the pair of the second.\<close>

definition exCollideTwice :: "MetricThreshold list" where
  "exCollideTwice = [exThreshold ''a'' ''b-c'' (Some 0), exThreshold ''a-b'' ''c'' None,
     exThreshold ''a'' ''b-c'' (Some 0x4014000000000000)]"


text \<open>The calls \<open>new\<close>, made after the calls \<open>w\<close>, are those of the containers of a
  list, each at its path and in order: for each container the \<open>MkdirAll\<close> of its path and
  the \<open>WriteFile\<close> of \<open>config.yaml\<close> in that path, the data written being what the
  serializer returned for the configuration derived for the container at that moment.\<close>

fun written :: "env \<Rightarrow> Config \<Rightarrow> fsop list \<Rightarrow> (string \<times> Container) list \<Rightarrow> fsop list \<Rightarrow> bool" where
  "written E cfg w [] new = (new = [])"
| "written E cfg w ((p, c) # vs) new =
     (case new of
        MkdirAll q # WriteFile y d # rest \<Rightarrow>
          q = p \<and> y = Join [p, ''config.yaml'']
          \<and> yaml_Marshal E (createContainerYaml (range_order E (w @ [MkdirAll p])) cfg c) = Inr d
          \<and> written E cfg (w @ [MkdirAll p, WriteFile y d]) vs rest
      | _ \<Rightarrow> False)"

text \<open>A run stopped at the container \<open>c\<close> with the path \<open>p\<close>, reached after the calls \<open>u\<close>,
  with the calls \<open>w'\<close> made in all and the error \<open>err\<close>: the \<open>MkdirAll\<close> of \<open>p\<close> failed; or it
  succeeded and the serializer failed; or both succeeded and the \<open>WriteFile\<close> of the
  serialized data failed. In each case the failing step is the last one.\<close>

definition stopsAt :: "env \<Rightarrow> Config \<Rightarrow> fsop list \<Rightarrow> string \<Rightarrow> Container \<Rightarrow> fsop list \<Rightarrow> string \<Rightarrow> bool" where
  "stopsAt E cfg u p c w' err =
     ((w' = u @ [MkdirAll p]
        \<and> (\<exists>cause. os_error E u (MkdirAll p) = Some cause
              \<and> err = ''error creating directory '' @ p @ '': '' @ cause))
      \<or> (w' = u @ [MkdirAll p] \<and> os_error E u (MkdirAll p) = None
        \<and> (\<exists>cause. yaml_Marshal E (createContainerYaml (range_order E w') cfg c) = Inl cause
              \<and> err = ''error marshaling YAML for '' @ Container.ContainerName c @ '': '' @ cause))
      \<or> (\<exists>d cause. w' = u @ [MkdirAll p, WriteFile (Join [p, ''config.yaml'']) d]
            \<and> os_error E u (MkdirAll p) = None
            \<and> yaml_Marshal E (createContainerYaml (range_order E (u @ [MkdirAll p])) cfg c) = Inr d
            \<and> os_error E (u @ [MkdirAll p]) (WriteFile (Join [p, ''config.yaml'']) d) = Some cause
            \<and> err = ''error writing YAML file '' @ Join [p, ''config.yaml''] @ '': '' @ cause))"

text \<open>Environments in which \<open>MkdirAll\<close> of one path is denied, in which the serializer
  fails for a configuration that holds the key \<open>E2-M2\<close>, and in which \<open>WriteFile\<close> of one
  path fails; two siblings whose names differ in a reserved character; a tree with a
  container \<open>C\<close> at depth 2 that has a descendant and a later sibling; and a container
  with an unnamed nested container.\<close>

definition exBadYaml :: env where
  "exBadYaml = exEnv\<lparr>yaml_Marshal :=
     (\<lambda>c. if ''E2-M2'' \<in> set (map thresholdKey (MetricThresholds (Entity (Source c))))
          then Inl ''cannot marshal'' else exMarshal c)\<rparr>"

definition exWriteDenied :: "string \<Rightarrow> env" where
  "exWriteDenied p = exEnv\<lparr>os_error :=
     (\<lambda>w c. case c of MkdirAll q \<Rightarrow> None
            | WriteFile q d \<Rightarrow> if q = p then Some ''disk full'' else None)\<rparr>"

definition exDenied :: "string \<Rightarrow> env" where
  "exDenied p = exEnv\<lparr>os_error := (\<lambda>w c. if c = MkdirAll p then Some ''permission denied'' else None)\<rparr>"

definition exSanitized :: "Container list" where
  "exSanitized = [Container ''root'' ''A/B'' [], Container ''root'' ''A:B'' []]"

definition exFailTree :: "Container list" where
  "exFailTree =
     [Container ''root'' ''A''
        [Graph ''g'' [exMeta ''E1'' ''M1'' (Some
           [Container ''A'' ''C'' [Graph ''g'' [exMeta ''E2'' ''M2'' (Some [Container ''C'' ''X'' []])]],
            Container ''A'' ''D'' []])]],
      Container ''root'' ''B'' []]"


section \<open>Properties of the sanitizer\<close>

lemma ReplaceAll_single:
  "ReplaceAll s [a] [b] = map (\<lambda>c. if c = a then b else c) s"
  by (induction s) simp_all

lemma sanitizeFolderName_map:
  "sanitizeFolderName s = map (\<lambda>c. if c \<in> reserved then CHR ''_'' else c) s"
  by (simp add: sanitizeFolderName_def invalid_def reserved_def ReplaceAll_single)

lemma underscore_not_reserved: "CHR ''_'' \<notin> reserved"
  by (simp add: reserved_def)

lemma reserved_ascii: "c \<in> reserved \<Longrightarrow> (of_char c :: nat) < 128"
  by (auto simp: reserved_def)


text \<open>
  C8. For every string \<open>s\<close>, \<open>sanitizeFolderName s\<close> is \<open>s\<close> with each reserved character
  replaced by an underscore and every other character kept: it has the length of \<open>s\<close>, at
  every position it holds \<open>_\<close> where \<open>s\<close> holds a reserved character and the character of \<open>s\<close>
  otherwise, every byte from \<open>0x80\<close> on (so every byte of a code point beyond ASCII) is kept,
  and two inputs that hold different non-reserved characters at some position have
  different outputs. The function is total: it is defined, without an error value, on
  every string.
\<close>

theorem sanitize_substitutes:
  "sanitizeFolderName s = map (\<lambda>c. if c \<in> reserved then CHR ''_'' else c) s
   \<and> length (sanitizeFolderName s) = length s
   \<and> (\<forall>i < length s. sanitizeFolderName s ! i = (if s ! i \<in> reserved then CHR ''_'' else s ! i))
   \<and> (\<forall>i < length s. 128 \<le> (of_char (s ! i) :: nat) \<longrightarrow> sanitizeFolderName s ! i = s ! i)
   \<and> (\<forall>t i. i < length s \<and> i < length t \<and> s ! i \<notin> reserved \<and> t ! i \<notin> reserved \<and> s ! i \<noteq> t ! i
         \<longrightarrow> sanitizeFolderName s \<noteq> sanitizeFolderName t)"
proof -
  have m: "\<And>u. sanitizeFolderName u = map (\<lambda>c. if c \<in> reserved then CHR ''_'' else c) u"
    by (rule sanitizeFolderName_map)
  have hi: "\<forall>i < length s. 128 \<le> (of_char (s ! i) :: nat) \<longrightarrow> sanitizeFolderName s ! i = s ! i"
  proof (intro allI impI)
    fix i assume i: "i < length s" and b: "128 \<le> (of_char (s ! i) :: nat)"
    from b reserved_ascii [of "s ! i"] have "s ! i \<notin> reserved" by fastforce
    with i show "sanitizeFolderName s ! i = s ! i" by (simp add: m)
  qed
  have inj: "\<forall>t i. i < length s \<and> i < length t \<and> s ! i \<notin> reserved \<and> t ! i \<notin> reserved \<and> s ! i \<noteq> t ! i
         \<longrightarrow> sanitizeFolderName s \<noteq> sanitizeFolderName t"
  proof (intro allI impI notI)
    fix t i
    assume h: "i < length s \<and> i < length t \<and> s ! i \<notin> reserved \<and> t ! i \<notin> reserved \<and> s ! i \<noteq> t ! i"
      and e: "sanitizeFolderName s = sanitizeFolderName t"
    from e have "sanitizeFolderName s ! i = sanitizeFolderName t ! i" by simp
    with h show False by (simp add: m)
  qed
  show ?thesis using hi inj by (simp add: m)
qed

theorem sanitize_substitutes_witness:
  "sanitizeFolderName ''a/b:c'' = ''a_b_c''
   \<and> length (sanitizeFolderName ''a/b:c'') = 5
   \<and> sanitizeFolderName ''a/b:c'' ! 1 = CHR ''_''
   \<and> sanitizeFolderName [CHR ''a'', CHR 0xC3, CHR 0xA9] ! 1 = CHR 0xC3
   \<and> sanitizeFolderName ''a/b:c'' \<noteq> sanitizeFolderName ''a/x:c''"
proof -
  have r: "CHR ''/'' \<in> reserved" "CHR ''b'' \<notin> reserved" "CHR ''x'' \<notin> reserved"
    "CHR ''a'' \<notin> reserved" "CHR ''c'' \<notin> reserved" "CHR '':'' \<in> reserved"
    by (simp_all add: reserved_def)
  from sanitize_substitutes [of "''a/b:c''"] r
  have a: "sanitizeFolderName ''a/b:c'' = ''a_b_c''" by simp
  from sanitize_substitutes [of "''a/b:c''"]
  have b: "sanitizeFolderName ''a/b:c'' \<noteq> sanitizeFolderName ''a/x:c''"
    using r by (elim conjE allE [where x = "''a/x:c''"] allE [where x = "2::nat"]) simp
  from sanitize_substitutes [of "[CHR ''a'', CHR 0xC3, CHR 0xA9]"]
  have c: "sanitizeFolderName [CHR ''a'', CHR 0xC3, CHR 0xA9] ! 1 = CHR 0xC3"
    by (elim conjE allE [where x = "1::nat"]) simp
  from a b c show ?thesis by simp
qed

text \<open>
  C9. Sanitization is idempotent and its output is clean: sanitizing twice gives what
  sanitizing once gives, the output holds no reserved character, and the output has the
  length of the input.
\<close>

theorem sanitize_idempotent_clean:
  "sanitizeFolderName (sanitizeFolderName s) = sanitizeFolderName s
   \<and> set (sanitizeFolderName s) \<inter> reserved = {}
   \<and> length (sanitizeFolderName s) = length s"
  by (auto simp: sanitizeFolderName_map underscore_not_reserved)

section \<open>Properties of the derived configuration\<close>

subsection \<open>The loops as one fold, and the result as a record\<close>

lemma thresholdStep_alt:
  "thresholdStep meta u t =
     (if thresholdPair t = metaPair meta \<and> map_of u (thresholdKey t) = None
      then u @ [(thresholdKey t, t)] else u)"
  by (simp add: thresholdStep_def thresholdPair_def metaPair_def thresholdKey_def Let_def)

lemma thresholdKey_pair: "thresholdPair a = thresholdPair b \<Longrightarrow> thresholdKey a = thresholdKey b"
  by (simp add: thresholdPair_def thresholdKey_def)

lemma foldl_nested_concat:
  "foldl (\<lambda>u g. foldl f u (h g)) a gs = foldl f a (concat (map h gs))"
  by (induction gs arbitrary: a) simp_all

lemma uniqueThresholds_metas:
  "uniqueThresholds config container =
     foldl (\<lambda>u meta. foldl (thresholdStep meta) u (MetricThresholds (Entity (Source config))))
       [] (ownMetas container)"
  unfolding uniqueThresholds_def ownMetas_def
  by (rule foldl_nested_concat)

lemma foldl_invariant:
  assumes "P a" and "\<And>u x. x \<in> set xs \<Longrightarrow> P u \<Longrightarrow> P (f u x)"
  shows "P (foldl f a xs)"
  using assms by (induction xs arbitrary: a) simp_all

lemma add_set: "addThreshold (setThresholds c ts) t = setThresholds c (ts @ [t])"
  by (simp add: addThreshold_def setThresholds_def)

lemma foldl_add:
  "foldl (\<lambda>nc (k, t). addThreshold nc t) (setThresholds c ts) kvs
     = setThresholds c (ts @ map snd kvs)"
  by (induction kvs arbitrary: ts) (simp_all add: add_set split_def)

lemma createContainerYaml_eq:
  "createContainerYaml rangeOrder config container =
     setThresholds config (map snd (rangeOrder (uniqueThresholds config container)))"
proof -
  have "\<lparr>Source = \<lparr>
            DefaultConfig = DefaultConfig (Source config),
            Entity = \<lparr>
              Name = Name (Entity (Source config)),
              ID = ID (Entity (Source config)),
              Ignore = Ignore (Entity (Source config)),
              Whitelist = Whitelist (Entity (Source config)),
              MetricThresholds = []\<rparr>\<rparr>\<rparr> = setThresholds config []"
    by (simp add: setThresholds_def)
  then show ?thesis
    unfolding createContainerYaml_def Let_def addThreshold_def [symmetric]
    by (simp add: foldl_add)
qed

lemma setThresholds_thresholds: "MetricThresholds (Entity (Source (setThresholds c ts))) = ts"
  unfolding setThresholds_def by simp

lemma derivedThresholds_eq:
  "derivedThresholds rangeOrder config container =
     map snd (rangeOrder (uniqueThresholds config container))"
  by (simp add: derivedThresholds_def createContainerYaml_eq setThresholds_thresholds)

lemma derivedThresholds_set:
  assumes "is_range_order (uniqueThresholds config container)
             (rangeOrder (uniqueThresholds config container))"
  shows "set (derivedThresholds rangeOrder config container)
           = snd ` set (uniqueThresholds config container)"
proof -
  from assms have "set (rangeOrder (uniqueThresholds config container))
      = set (uniqueThresholds config container)"
    unfolding is_range_order_def by (rule mset_eq_setD)
  then show ?thesis
    by (simp add: derivedThresholds_eq)
qed

subsection \<open>Invariants of the map\<close>

lemma thresholdStep_distinct:
  "distinct (map fst u) \<Longrightarrow> distinct (map fst (thresholdStep meta u t))"
  by (auto simp: thresholdStep_alt map_of_eq_None_iff)

lemma uniqueThresholds_distinct: "distinct (map fst (uniqueThresholds config container))"
  unfolding uniqueThresholds_metas
  by (intro foldl_invariant [where P = "\<lambda>u. distinct (map fst u)"] thresholdStep_distinct) simp_all

lemma thresholdStep_entries:
  "\<forall>e \<in> set u. entry_ok globals metas e \<Longrightarrow> t \<in> set globals \<Longrightarrow> meta \<in> set metas
   \<Longrightarrow> \<forall>e \<in> set (thresholdStep meta u t). entry_ok globals metas e"
  by (auto simp: thresholdStep_alt entry_ok_def)

lemma uniqueThresholds_entries:
  "\<forall>e \<in> set (uniqueThresholds config container).
     entry_ok (MetricThresholds (Entity (Source config))) (ownMetas container) e"
  unfolding uniqueThresholds_metas
  by (intro foldl_invariant [where P = "\<lambda>u. \<forall>e \<in> set u. entry_ok _ _ e"] thresholdStep_entries)
     simp_all

subsection \<open>The first match is the one kept\<close>

lemma find_first:
  "\<forall>y \<in> set pre. \<not> P y \<Longrightarrow> P t \<Longrightarrow> List.find P (pre @ t # rest) = Some t"
  by (induction pre) simp_all

lemma inner_first:
  assumes "globals = pre @ rest"
    and "\<forall>e \<in> set u. List.find (\<lambda>y. thresholdPair y = thresholdPair (snd e)) globals = Some (snd e)"
    and "\<forall>y \<in> set pre. thresholdPair y = metaPair meta \<longrightarrow> map_of u (thresholdKey y) \<noteq> None"
  shows "\<forall>e \<in> set (foldl (thresholdStep meta) u rest).
           List.find (\<lambda>y. thresholdPair y = thresholdPair (snd e)) globals = Some (snd e)"
  using assms
proof (induction rest arbitrary: pre u)
  case Nil
  then show ?case by simp
next
  case (Cons t rest)
  let ?u = "thresholdStep meta u t"
  have g: "globals = (pre @ [t]) @ rest" using Cons.prems(1) by simp
  have seen: "\<forall>y \<in> set (pre @ [t]). thresholdPair y = metaPair meta
                \<longrightarrow> map_of ?u (thresholdKey y) \<noteq> None"
    using Cons.prems(3) by (auto simp: thresholdStep_alt map_of_eq_None_iff)
  have inv: "\<forall>e \<in> set ?u.
      List.find (\<lambda>y. thresholdPair y = thresholdPair (snd e)) globals = Some (snd e)"
  proof (cases "thresholdPair t = metaPair meta \<and> map_of u (thresholdKey t) = None")
    case False
    then have "?u = u" by (simp add: thresholdStep_alt)
    with Cons.prems(2) show ?thesis by simp
  next
    case True
    have "\<forall>y \<in> set pre. \<not> thresholdPair y = thresholdPair t"
    proof (intro ballI notI)
      fix y assume y: "y \<in> set pre" and e: "thresholdPair y = thresholdPair t"
      with True Cons.prems(3) have "map_of u (thresholdKey y) \<noteq> None" by simp
      moreover have "thresholdKey y = thresholdKey t" using e by (rule thresholdKey_pair)
      ultimately show False using True by simp
    qed
    then have "List.find (\<lambda>y. thresholdPair y = thresholdPair t) globals = Some t"
      unfolding Cons.prems(1) by (intro find_first) simp_all
    moreover have "?u = u @ [(thresholdKey t, t)]" using True by (simp add: thresholdStep_alt)
    ultimately show ?thesis using Cons.prems(2) by simp
  qed
  from Cons.IH [OF g inv seen] show ?case by simp
qed

lemma uniqueThresholds_first:
  "\<forall>e \<in> set (uniqueThresholds config container).
     List.find (\<lambda>y. thresholdPair y = thresholdPair (snd e)) (MetricThresholds (Entity (Source config)))
       = Some (snd e)"
  unfolding uniqueThresholds_metas
proof (rule foldl_invariant)
  show "\<forall>e \<in> set []. List.find (\<lambda>y. thresholdPair y = thresholdPair (snd e))
      (MetricThresholds (Entity (Source config))) = Some (snd e)" by simp
next
  fix u :: thresholdMap and meta
  assume "\<forall>e \<in> set u. List.find (\<lambda>y. thresholdPair y = thresholdPair (snd e))
      (MetricThresholds (Entity (Source config))) = Some (snd e)"
  then show "\<forall>e \<in> set (foldl (thresholdStep meta) u (MetricThresholds (Entity (Source config)))).
      List.find (\<lambda>y. thresholdPair y = thresholdPair (snd e))
        (MetricThresholds (Entity (Source config))) = Some (snd e)"
    by (intro inner_first [where pre = "[]"]) simp_all
qed

subsection \<open>Every referenced key is present\<close>

lemma thresholdStep_keeps: "k \<in> fst ` set u \<Longrightarrow> k \<in> fst ` set (thresholdStep meta u t)"
  by (auto simp: thresholdStep_alt)

lemma foldl_thresholdStep_keeps:
  "k \<in> fst ` set u \<Longrightarrow> k \<in> fst ` set (foldl (thresholdStep meta) u ts)"
proof (induction ts arbitrary: u)
  case Nil
  then show ?case by simp
next
  case (Cons a ts)
  from Cons.prems have "k \<in> fst ` set (thresholdStep meta u a)" by (rule thresholdStep_keeps)
  then show ?case using Cons.IH by simp
qed

lemma foldl_metas_keeps:
  "k \<in> fst ` set u
   \<Longrightarrow> k \<in> fst ` set (foldl (\<lambda>u meta. foldl (thresholdStep meta) u ts) u metas)"
proof (induction metas arbitrary: u)
  case Nil
  then show ?case by simp
next
  case (Cons a metas)
  from Cons.prems have "k \<in> fst ` set (foldl (thresholdStep a) u ts)"
    by (rule foldl_thresholdStep_keeps)
  then show ?case using Cons.IH by simp
qed

lemma thresholdStep_adds:
  "thresholdPair t = metaPair meta \<Longrightarrow> thresholdKey t \<in> fst ` set (thresholdStep meta u t)"
  by (auto simp: thresholdStep_alt map_of_eq_None_iff)

lemma foldl_thresholdStep_adds:
  "t \<in> set ts \<Longrightarrow> thresholdPair t = metaPair meta
   \<Longrightarrow> thresholdKey t \<in> fst ` set (foldl (thresholdStep meta) u ts)"
proof (induction ts arbitrary: u)
  case Nil
  then show ?case by simp
next
  case (Cons a ts)
  show ?case
  proof (cases "a = t")
    case True
    have "thresholdKey t \<in> fst ` set (thresholdStep meta u t)"
      using Cons.prems(2) by (rule thresholdStep_adds)
    then have "thresholdKey t \<in> fst ` set (foldl (thresholdStep meta) (thresholdStep meta u t) ts)"
      by (rule foldl_thresholdStep_keeps)
    then show ?thesis using True by simp
  next
    case False
    with Cons.prems have "t \<in> set ts" by simp
    from Cons.IH [OF this Cons.prems(2)] show ?thesis by simp
  qed
qed

lemma uniqueThresholds_keys_complete:
  assumes "meta \<in> set (ownMetas container)"
    and "t \<in> set (MetricThresholds (Entity (Source config)))"
    and "thresholdPair t = metaPair meta"
  shows "thresholdKey t \<in> fst ` set (uniqueThresholds config container)"
proof -
  from assms(1) obtain ms1 ms2 where ms: "ownMetas container = ms1 @ meta # ms2"
    by (auto simp: in_set_conv_decomp)
  have "thresholdKey t \<in> fst ` set (foldl (thresholdStep meta)
      (foldl (\<lambda>u meta. foldl (thresholdStep meta) u (MetricThresholds (Entity (Source config)))) [] ms1)
      (MetricThresholds (Entity (Source config))))"
    using assms(2,3) by (rule foldl_thresholdStep_adds)
  then have "thresholdKey t \<in> fst ` set (foldl (\<lambda>u meta. foldl (thresholdStep meta) u (MetricThresholds (Entity (Source config))))
      (foldl (thresholdStep meta)
      (foldl (\<lambda>u meta. foldl (thresholdStep meta) u (MetricThresholds (Entity (Source config)))) [] ms1)
      (MetricThresholds (Entity (Source config)))) ms2)"
    by (rule foldl_metas_keeps)
  then show ?thesis
    unfolding uniqueThresholds_metas ms by simp
qed

subsection \<open>The claims about the derived thresholds\<close>

lemma distinct_key_pair: "distinct (map thresholdKey ts) \<Longrightarrow> distinct (map thresholdPair ts)"
proof (induction ts)
  case Nil
  then show ?case by simp
next
  case (Cons t ts)
  have "thresholdPair t \<notin> thresholdPair ` set ts"
  proof
    assume "thresholdPair t \<in> thresholdPair ` set ts"
    then obtain x where x: "x \<in> set ts" "thresholdPair t = thresholdPair x" by auto
    from x(2) have "thresholdKey t = thresholdKey x" by (rule thresholdKey_pair)
    with x(1) Cons.prems show False by auto
  qed
  with Cons show ?case by simp
qed

lemma uniqueThresholds_pairs_distinct:
  "distinct (map thresholdPair (map snd (uniqueThresholds config container)))"
proof -
  let ?u = "uniqueThresholds config container"
  have "map fst ?u = map thresholdKey (map snd ?u)"
    using uniqueThresholds_entries [of config container] by (simp add: entry_ok_def)
  with uniqueThresholds_distinct [of config container]
  have "distinct (map thresholdKey (map snd ?u))" by simp
  then show ?thesis by (rule distinct_key_pair)
qed

lemma exTwice_unique:
  "uniqueThresholds (exConfig exSameKey) exTwice = [(''E1-M1'', exThreshold ''E1'' ''M1'' (Some 0))]"
  by (simp add: uniqueThresholds_def exTwice_def exSameKey_def exConfig_def exMeta_def
      thresholdStep_def exThreshold_def)

lemma exOuter_unique:
  "uniqueThresholds (exConfig exTwoKeys) exOuter = [(''E1-M1'', exThreshold ''E1'' ''M1'' None)]"
  by (simp add: uniqueThresholds_def exOuter_def exTwoKeys_def exConfig_def exMeta_def
      thresholdStep_def exThreshold_def)

lemma exNested_unique:
  "uniqueThresholds (exConfig exTwoKeys) exNested = [(''E2-M2'', exThreshold ''E2'' ''M2'' None)]"
  by (simp add: uniqueThresholds_def exNested_def exTwoKeys_def exConfig_def exMeta_def
      thresholdStep_def exThreshold_def)

lemma referenced_present_unless_keys_collide:
  assumes "is_range_order (uniqueThresholds config container)
             (rangeOrder (uniqueThresholds config container))"
    and "\<forall>a \<in> set (MetricThresholds (Entity (Source config))).
         \<forall>b \<in> set (MetricThresholds (Entity (Source config))).
           thresholdKey a = thresholdKey b \<longrightarrow> thresholdPair a = thresholdPair b"
    and "t \<in> set (MetricThresholds (Entity (Source config)))"
    and "thresholdPair t \<in> metaPair ` set (ownMetas container)"
  shows "thresholdPair t \<in> thresholdPair ` set (derivedThresholds rangeOrder config container)"
proof -
  from assms(4) obtain meta where meta: "meta \<in> set (ownMetas container)"
    "thresholdPair t = metaPair meta" by auto
  from uniqueThresholds_keys_complete [OF meta(1) assms(3) meta(2)]
  obtain e where e: "e \<in> set (uniqueThresholds config container)" "fst e = thresholdKey t"
    by auto
  from e(1) uniqueThresholds_entries [of config container]
  have ok: "entry_ok (MetricThresholds (Entity (Source config))) (ownMetas container) e" by simp
  then have "thresholdKey (snd e) = thresholdKey t" using e(2) by (simp add: entry_ok_def)
  moreover from ok have "snd e \<in> set (MetricThresholds (Entity (Source config)))"
    by (simp add: entry_ok_def)
  ultimately have "thresholdPair (snd e) = thresholdPair t"
    using assms(2,3) by blast
  moreover from e(1) have "snd e \<in> set (derivedThresholds rangeOrder config container)"
    by (simp add: derivedThresholds_set [of config container rangeOrder, OF assms(1)])
  ultimately show ?thesis by (metis imageI)
qed

lemma derived_entry_first_of_pair:
  assumes "is_range_order (uniqueThresholds config container)
             (rangeOrder (uniqueThresholds config container))"
    and "t \<in> set (derivedThresholds rangeOrder config container)"
  shows "List.find (\<lambda>u. thresholdPair u = thresholdPair t)
           (MetricThresholds (Entity (Source config))) = Some t"
  using uniqueThresholds_first [of config container] assms(2)
  by (auto simp: derivedThresholds_set [of config container rangeOrder, OF assms(1)])

lemma find_Some_in: "List.find P xs = Some x \<Longrightarrow> x \<in> set xs \<and> P x"
  by (induction xs) (auto split: if_splits)

lemma first_match_retained_unless_keys_collide:
  assumes "is_range_order (uniqueThresholds config container)
             (rangeOrder (uniqueThresholds config container))"
    and "\<forall>a \<in> set (MetricThresholds (Entity (Source config))).
         \<forall>b \<in> set (MetricThresholds (Entity (Source config))).
           thresholdKey a = thresholdKey b \<longrightarrow> thresholdPair a = thresholdPair b"
    and "pair \<in> metaPair ` set (ownMetas container)"
    and "List.find (\<lambda>u. thresholdPair u = pair) (MetricThresholds (Entity (Source config))) = Some t"
  shows "t \<in> set (derivedThresholds rangeOrder config container)"
proof -
  from find_Some_in [OF assms(4)]
  have t: "t \<in> set (MetricThresholds (Entity (Source config)))" "thresholdPair t = pair" by simp_all
  from t(2) assms(3) have "thresholdPair t \<in> metaPair ` set (ownMetas container)" by simp
  from referenced_present_unless_keys_collide [of config container rangeOrder t, OF assms(1,2) t(1) this]
  obtain x where x: "x \<in> set (derivedThresholds rangeOrder config container)"
    "thresholdPair x = thresholdPair t" by auto
  from derived_entry_first_of_pair [of config container rangeOrder x, OF assms(1) x(1)]
  have "List.find (\<lambda>u. thresholdPair u = pair) (MetricThresholds (Entity (Source config))) = Some x"
    using x(2) t(2) by simp
  with assms(4) have "x = t" by simp
  with x(1) show ?thesis by simp
qed

text \<open>
  C1. The claim: the derived thresholds are exactly the global thresholds whose pair is the
  pair of a metadata entry directly under the container's own graphs, one entry per
  pair. The map is keyed by \<open>EntityID + "-" + MetricID\<close>, and two different pairs can have
  the same key. Here the global thresholds are \<open>(a-b, c)\<close> and \<open>(a, b-c)\<close>, the container
  refers to both pairs, both have the key \<open>a-b-c\<close>, and the derived list holds the first
  threshold only: the second pair is referenced and has a global threshold, and no entry.
  (\<open>referenced_present_unless_keys_collide\<close> above: without such a collision every
  referenced pair has its entry.)
\<close>

theorem key_collision_drops_threshold:
  "exThreshold ''a'' ''b-c'' None \<in> set (MetricThresholds (Entity (Source (exConfig exCollide))))
   \<and> thresholdPair (exThreshold ''a'' ''b-c'' None) \<in> metaPair ` set (ownMetas exBoth)
   \<and> uniqueThresholds (exConfig exCollide) exBoth = [(''a-b-c'', exThreshold ''a-b'' ''c'' None)]
   \<and> derivedThresholds (\<lambda>m. m) (exConfig exCollide) exBoth = [exThreshold ''a-b'' ''c'' None]
   \<and> thresholdPair (exThreshold ''a'' ''b-c'' None)
        \<notin> thresholdPair ` set (derivedThresholds (\<lambda>m. m) (exConfig exCollide) exBoth)"
proof -
  have u: "uniqueThresholds (exConfig exCollide) exBoth = [(''a-b-c'', exThreshold ''a-b'' ''c'' None)]"
    by (simp add: uniqueThresholds_def exBoth_def exCollide_def exConfig_def exMeta_def
      thresholdStep_def exThreshold_def)
  have m: "thresholdPair (exThreshold ''a'' ''b-c'' None) \<in> metaPair ` set (ownMetas exBoth)"
    by (simp add: thresholdPair_def exThreshold_def metaPair_def ownMetas_def exBoth_def exMeta_def)
  have g: "exThreshold ''a'' ''b-c'' None \<in> set (MetricThresholds (Entity (Source (exConfig exCollide))))"
    by (simp add: exConfig_def exCollide_def)
  have d: "thresholdPair (exThreshold ''a'' ''b-c'' None)
        \<notin> thresholdPair ` set (derivedThresholds (\<lambda>m. m) (exConfig exCollide) exBoth)"
    by (simp add: derivedThresholds_eq u thresholdPair_def exThreshold_def)
  from u m g d show ?thesis by (simp add: derivedThresholds_eq)
qed

text \<open>
  C2. For every container and every global configuration, the derived list of
  \<open>createContainerYaml\<close> holds at most one entry for each pair
  \<open>(EntityID, MetricID)\<close>: the pairs of its entries are pairwise different, whatever the
  order in which the final \<open>range\<close> visits the map.
\<close>

theorem derived_pairs_distinct:
  assumes "is_range_order (uniqueThresholds config container)
             (rangeOrder (uniqueThresholds config container))"
  shows "distinct (map thresholdPair (derivedThresholds rangeOrder config container))"
proof -
  let ?u = "uniqueThresholds config container"
  from assms have "mset (rangeOrder ?u) = mset ?u" by (simp add: is_range_order_def)
  then have "mset (map thresholdPair (map snd (rangeOrder ?u))) = mset (map thresholdPair (map snd ?u))"
    by simp
  then have "distinct (map thresholdPair (map snd (rangeOrder ?u)))
      = distinct (map thresholdPair (map snd ?u))"
    by (rule mset_eq_imp_distinct_iff)
  with uniqueThresholds_pairs_distinct [of config container] show ?thesis
    by (simp add: derivedThresholds_eq)
qed

theorem derived_pairs_distinct_witness:
  "is_range_order (uniqueThresholds (exConfig exSameKey) exTwice)
     ((\<lambda>m. m) (uniqueThresholds (exConfig exSameKey) exTwice))
   \<and> derivedThresholds (\<lambda>m. m) (exConfig exSameKey) exTwice = [exThreshold ''E1'' ''M1'' (Some 0)]
   \<and> distinct (map thresholdPair (derivedThresholds (\<lambda>m. m) (exConfig exSameKey) exTwice))"
proof -
  have h: "is_range_order (uniqueThresholds (exConfig exSameKey) exTwice)
     ((\<lambda>m. m) (uniqueThresholds (exConfig exSameKey) exTwice))"
    by (simp add: is_range_order_def)
  from derived_pairs_distinct [of "exConfig exSameKey" exTwice "\<lambda>m. m"] h show ?thesis
    by (simp add: derivedThresholds_eq exTwice_unique)
qed

text \<open>
  C3. The claim: when several global thresholds have the same pair and a metadata entry
  of the container refers to that pair, the entry kept for the pair is the first of
  them in the global list. Every entry that is kept is the first threshold with its
  pair (\<open>derived_entry_first_of_pair\<close>), and without a collision of keys the first
  threshold of every referenced pair is kept
  (\<open>first_match_retained_unless_keys_collide\<close>). Here the global thresholds are
  \<open>(a, b-c)\<close> with the bound 0, \<open>(a-b, c)\<close>, and \<open>(a, b-c)\<close> with the bound 5; the container
  refers to \<open>(a-b, c)\<close> and then to \<open>(a, b-c)\<close>. The key \<open>a-b-c\<close> is taken by \<open>(a-b, c)\<close>, so
  both thresholds of \<open>(a, b-c)\<close> are dropped: the first match of a referenced pair is not
  kept, and the pair has no entry.
\<close>

theorem key_collision_drops_first_match:
  "List.find (\<lambda>u. thresholdPair u = (''a'', ''b-c''))
      (MetricThresholds (Entity (Source (exConfig exCollideTwice))))
     = Some (exThreshold ''a'' ''b-c'' (Some 0))
   \<and> (''a'', ''b-c'') \<in> metaPair ` set (ownMetas exBoth)
   \<and> uniqueThresholds (exConfig exCollideTwice) exBoth
       = [(''a-b-c'', exThreshold ''a-b'' ''c'' None)]
   \<and> derivedThresholds (\<lambda>m. m) (exConfig exCollideTwice) exBoth
       = [exThreshold ''a-b'' ''c'' None]
   \<and> exThreshold ''a'' ''b-c'' (Some 0)
       \<notin> set (derivedThresholds (\<lambda>m. m) (exConfig exCollideTwice) exBoth)
   \<and> (''a'', ''b-c'')
       \<notin> thresholdPair ` set (derivedThresholds (\<lambda>m. m) (exConfig exCollideTwice) exBoth)"
proof -
  have f: "List.find (\<lambda>u. thresholdPair u = (''a'', ''b-c''))
      (MetricThresholds (Entity (Source (exConfig exCollideTwice))))
     = Some (exThreshold ''a'' ''b-c'' (Some 0))"
    by (simp add: exConfig_def exCollideTwice_def thresholdPair_def exThreshold_def)
  have m: "(''a'', ''b-c'') \<in> metaPair ` set (ownMetas exBoth)"
    by (simp add: metaPair_def ownMetas_def exBoth_def exMeta_def)
  have u: "uniqueThresholds (exConfig exCollideTwice) exBoth
       = [(''a-b-c'', exThreshold ''a-b'' ''c'' None)]"
    by (simp add: uniqueThresholds_def exBoth_def exCollideTwice_def exConfig_def exMeta_def
      thresholdStep_def exThreshold_def)
  have d: "derivedThresholds (\<lambda>m. m) (exConfig exCollideTwice) exBoth
       = [exThreshold ''a-b'' ''c'' None]"
    by (simp add: derivedThresholds_eq u)
  have n: "exThreshold ''a'' ''b-c'' (Some 0)
       \<notin> set (derivedThresholds (\<lambda>m. m) (exConfig exCollideTwice) exBoth)"
    unfolding d by (simp add: exThreshold_def)
  have p: "(''a'', ''b-c'')
       \<notin> thresholdPair ` set (derivedThresholds (\<lambda>m. m) (exConfig exCollideTwice) exBoth)"
    unfolding d by (simp add: thresholdPair_def exThreshold_def)
  show ?thesis by (intro conjI f m u d n p)
qed

text \<open>
  C4. A threshold whose pair is the pair of no metadata entry directly under the
  container's own graphs is not in the container's derived list, and no entry of the
  list has its pair; the example is a threshold that the derived list of a nested
  container holds and that of the enclosing container does not.
\<close>

theorem unreferenced_absent:
  assumes "is_range_order (uniqueThresholds config container)
             (rangeOrder (uniqueThresholds config container))"
    and "thresholdPair t \<notin> metaPair ` set (ownMetas container)"
  shows "t \<notin> set (derivedThresholds rangeOrder config container)
         \<and> thresholdPair t \<notin> thresholdPair ` set (derivedThresholds rangeOrder config container)"
proof -
  have "\<forall>x \<in> set (derivedThresholds rangeOrder config container).
          thresholdPair x \<in> metaPair ` set (ownMetas container)"
    using uniqueThresholds_entries [of config container]
    by (auto simp: derivedThresholds_set [of config container rangeOrder, OF assms(1)] entry_ok_def)
  with assms(2) show ?thesis by auto
qed

theorem unreferenced_absent_witness:
  "is_range_order (uniqueThresholds (exConfig exTwoKeys) exOuter)
     ((\<lambda>m. m) (uniqueThresholds (exConfig exTwoKeys) exOuter))
   \<and> thresholdPair (exThreshold ''E2'' ''M2'' None) \<notin> metaPair ` set (ownMetas exOuter)
   \<and> exThreshold ''E2'' ''M2'' None \<notin> set (derivedThresholds (\<lambda>m. m) (exConfig exTwoKeys) exOuter)
   \<and> exThreshold ''E2'' ''M2'' None \<in> set (derivedThresholds (\<lambda>m. m) (exConfig exTwoKeys) exNested)"
proof -
  have h: "is_range_order (uniqueThresholds (exConfig exTwoKeys) exOuter)
     ((\<lambda>m. m) (uniqueThresholds (exConfig exTwoKeys) exOuter))"
    by (simp add: is_range_order_def)
  have p: "thresholdPair (exThreshold ''E2'' ''M2'' None) \<notin> metaPair ` set (ownMetas exOuter)"
    by (simp add: thresholdPair_def exThreshold_def metaPair_def ownMetas_def exOuter_def exMeta_def)
  have n: "exThreshold ''E2'' ''M2'' None \<in> set (derivedThresholds (\<lambda>m. m) (exConfig exTwoKeys) exNested)"
    by (simp add: derivedThresholds_eq exNested_unique)
  from unreferenced_absent [of "exConfig exTwoKeys" exOuter "\<lambda>m. m" "exThreshold ''E2'' ''M2'' None"]
    h p n show ?thesis by simp
qed

text \<open>
  C6. For every container, configuration and order of the final \<open>range\<close>, the derived
  configuration has the \<open>DefaultConfig\<close>, \<open>Name\<close>, \<open>ID\<close>, \<open>Ignore\<close> and \<open>Whitelist\<close> of the
  global configuration, and it is the global configuration with nothing but
  \<open>MetricThresholds\<close> replaced.
\<close>

theorem passes_through:
  "DefaultConfig (Source (createContainerYaml rangeOrder config container))
     = DefaultConfig (Source config)
   \<and> Name (Entity (Source (createContainerYaml rangeOrder config container)))
     = Name (Entity (Source config))
   \<and> ID (Entity (Source (createContainerYaml rangeOrder config container)))
     = ID (Entity (Source config))
   \<and> Ignore (Entity (Source (createContainerYaml rangeOrder config container)))
     = Ignore (Entity (Source config))
   \<and> Whitelist (Entity (Source (createContainerYaml rangeOrder config container)))
     = Whitelist (Entity (Source config))
   \<and> createContainerYaml rangeOrder config container
     = config\<lparr>Source := (Source config)\<lparr>Entity := (Entity (Source config))
         \<lparr>MetricThresholds :=
            MetricThresholds (Entity (Source (createContainerYaml rangeOrder config container)))\<rparr>\<rparr>\<rparr>"
  unfolding createContainerYaml_eq setThresholds_def by simp

section \<open>Properties of the paths\<close>


















section \<open>Properties of the materializer\<close>

subsection \<open>The traversal as a list of containers\<close>

lemma writeAll_append:
  "writeAll E cfg (xs @ ys) w =
     (case writeAll E cfg xs w of
        (Some err, w1) \<Rightarrow> (Some err, w1)
      | (None, w1) \<Rightarrow> writeAll E cfg ys w1)"
  by (induction xs arbitrary: w) (auto split: prod.splits option.splits)

lemma createStructureAndYaml_writeAll:
  "createStructureAndYaml E basePath containers cfg w = writeAll E cfg (preorder basePath containers) w"
  "nestedGraphs E currentPath graphs cfg w = writeAll E cfg (preorderGraphs currentPath graphs) w"
  "nestedMetas E currentPath metas cfg w = writeAll E cfg (preorderMetas currentPath metas) w"
proof (induction basePath containers and currentPath graphs and currentPath metas
    arbitrary: w and w and w rule: preorder_preorderGraphs_preorderMetas.induct)
  case (1 basePath)
  show ?case by simp
next
  case (2 basePath pe name graphs containers)
  show ?case
    by (simp add: writeAll_append "2.IH" split: prod.splits option.splits)
next
  case (3 currentPath)
  show ?case by simp
next
  case (4 currentPath gn metas graphs)
  show ?case
    by (simp add: writeAll_append "4.IH" split: prod.splits option.splits)
next
  case (5 currentPath)
  show ?case by simp
next
  case (6 currentPath ln ei mi metas)
  show ?case by (simp add: "6.IH")
next
  case (7 currentPath ln ei mi cs metas)
  show ?case
    by (simp add: writeAll_append "7.IH" split: prod.splits option.splits)
qed

lemma length_preorder:
  "length (preorder basePath containers) = countContainers containers"
  "length (preorderGraphs currentPath graphs) = countGraphs graphs"
  "length (preorderMetas currentPath metas) = countMetas metas"
  by (induction basePath containers and currentPath graphs and currentPath metas
      rule: preorder_preorderGraphs_preorderMetas.induct) simp_all

lemma succeed_append: "succeed E w (a @ b) = (succeed E w a \<and> succeed E (w @ a) b)"
  by (induction a arbitrary: w) simp_all

lemma writeContainer_cases:
  assumes "writeContainer E p cfg c w = (r, w')"
  shows "(\<exists>cause. os_error E w (MkdirAll p) = Some cause
            \<and> r = Some (''error creating directory '' @ p @ '': '' @ cause)
            \<and> w' = w @ [MkdirAll p])
       \<or> (os_error E w (MkdirAll p) = None
            \<and> (\<exists>cause. yaml_Marshal E (createContainerYaml (range_order E (w @ [MkdirAll p])) cfg c)
                          = Inl cause
                  \<and> r = Some (''error marshaling YAML for '' @ Container.ContainerName c @ '': '' @ cause))
            \<and> w' = w @ [MkdirAll p])
       \<or> (os_error E w (MkdirAll p) = None
            \<and> (\<exists>d. yaml_Marshal E (createContainerYaml (range_order E (w @ [MkdirAll p])) cfg c) = Inr d
                  \<and> w' = w @ [MkdirAll p, WriteFile (Join [p, ''config.yaml'']) d]
                  \<and> (case os_error E (w @ [MkdirAll p]) (WriteFile (Join [p, ''config.yaml'']) d) of
                        Some cause \<Rightarrow> r = Some (''error writing YAML file '' @ Join [p, ''config.yaml'']
                                                 @ '': '' @ cause)
                      | None \<Rightarrow> r = None)))"
  using assms
  by (auto simp: writeContainer_def call_def Let_def split: option.splits sum.splits)

lemma writeContainer_success:
  assumes "writeContainer E p cfg c w = (None, w')"
  shows "\<exists>d. w' = w @ [MkdirAll p, WriteFile (Join [p, ''config.yaml'']) d]
           \<and> os_error E w (MkdirAll p) = None
           \<and> os_error E (w @ [MkdirAll p]) (WriteFile (Join [p, ''config.yaml'']) d) = None
           \<and> yaml_Marshal E (createContainerYaml (range_order E (w @ [MkdirAll p])) cfg c) = Inr d"
  using writeContainer_cases [OF assms] by (auto split: option.splits)

lemma writeAll_success:
  assumes "writeAll E cfg vs w = (None, w')"
  shows "\<exists>new. w' = w @ new \<and> map target new = concat (map containerCalls vs) \<and> succeed E w new"
  using assms
proof (induction vs arbitrary: w)
  case Nil
  then show ?case by simp
next
  case (Cons v vs)
  obtain p c where v: "v = (p, c)" by (cases v)
  from Cons.prems v obtain w1 where w1: "writeContainer E p cfg c w = (None, w1)"
    and rest: "writeAll E cfg vs w1 = (None, w')"
    by (auto split: prod.splits option.splits)
  from writeContainer_success [OF w1] obtain d where
    d: "w1 = w @ [MkdirAll p, WriteFile (Join [p, ''config.yaml'']) d]"
      "os_error E w (MkdirAll p) = None"
      "os_error E (w @ [MkdirAll p]) (WriteFile (Join [p, ''config.yaml'']) d) = None"
    by blast
  from Cons.IH [OF rest] obtain new where
    new: "w' = w1 @ new" "map target new = concat (map containerCalls vs)" "succeed E w1 new"
    by blast
  let ?new = "[MkdirAll p, WriteFile (Join [p, ''config.yaml'']) d] @ new"
  have "w' = w @ ?new" using d(1) new(1) by simp
  moreover have "map target ?new = concat (map containerCalls (v # vs))"
    using new(2) v by (simp add: containerCalls_def)
  moreover have "succeed E w ?new"
    using d new(3) by (simp add: succeed_append)
  ultimately show ?case by blast
qed

subsection \<open>A run that stops\<close>

lemma writeContainer_stops:
  assumes "writeContainer E p cfg c w = (Some err, w')"
  shows "stopsAt E cfg w p c w' err"
  using writeContainer_cases [OF assms]
  by (auto simp: stopsAt_def split: option.splits)

lemma writeAll_written:
  assumes "writeAll E cfg vs w = (None, w')"
  shows "\<exists>new. w' = w @ new \<and> succeed E w new \<and> written E cfg w vs new"
  using assms
proof (induction vs arbitrary: w)
  case Nil
  then show ?case by simp
next
  case (Cons v vs)
  obtain p c where v: "v = (p, c)" by (cases v)
  from Cons.prems v obtain w1 where w1: "writeContainer E p cfg c w = (None, w1)"
    and rest: "writeAll E cfg vs w1 = (None, w')"
    by (auto split: prod.splits option.splits)
  from writeContainer_success [OF w1] obtain d where
    d: "w1 = w @ [MkdirAll p, WriteFile (Join [p, ''config.yaml'']) d]"
      "os_error E w (MkdirAll p) = None"
      "os_error E (w @ [MkdirAll p]) (WriteFile (Join [p, ''config.yaml'']) d) = None"
      "yaml_Marshal E (createContainerYaml (range_order E (w @ [MkdirAll p])) cfg c) = Inr d"
    by blast
  from Cons.IH [OF rest] obtain new where
    new: "w' = w1 @ new" "succeed E w1 new" "written E cfg w1 vs new"
    by blast
  let ?new = "[MkdirAll p, WriteFile (Join [p, ''config.yaml'']) d] @ new"
  have "w' = w @ ?new" using d(1) new(1) by simp
  moreover have "succeed E w ?new"
    using d new(2) by (simp add: succeed_append)
  moreover have "written E cfg w (v # vs) ?new"
    using new(3) d(1,4) v by simp
  ultimately show ?case by blast
qed

lemma writeAll_stops:
  assumes "writeAll E cfg vs w = (Some err, w')"
  shows "\<exists>visited p c rest pre. vs = visited @ (p, c) # rest
           \<and> succeed E w pre \<and> written E cfg w visited pre
           \<and> stopsAt E cfg (w @ pre) p c w' err"
  using assms
proof (induction vs arbitrary: w)
  case Nil
  then show ?case by simp
next
  case (Cons v vs)
  obtain p0 c0 where v: "v = (p0, c0)" by (cases v)
  obtain r w1 where w1: "writeContainer E p0 cfg c0 w = (r, w1)"
    by (cases "writeContainer E p0 cfg c0 w")
  show ?case
  proof (cases r)
    case (Some e)
    with Cons.prems v w1 have "e = err" "w1 = w'" by simp_all
    with Some w1 have "writeContainer E p0 cfg c0 w = (Some err, w')" by simp
    from writeContainer_stops [OF this] have "stopsAt E cfg (w @ []) p0 c0 w' err" by simp
    moreover have "v # vs = [] @ (p0, c0) # vs" using v by simp
    moreover have "succeed E w []" "written E cfg w [] []" by simp_all
    ultimately show ?thesis by blast
  next
    case None
    with Cons.prems v w1 have rest: "writeAll E cfg vs w1 = (Some err, w')" by simp
    from None w1 have "writeContainer E p0 cfg c0 w = (None, w1)" by simp
    from writeContainer_success [OF this] obtain d where
      d: "w1 = w @ [MkdirAll p0, WriteFile (Join [p0, ''config.yaml'']) d]"
        "os_error E w (MkdirAll p0) = None"
        "os_error E (w @ [MkdirAll p0]) (WriteFile (Join [p0, ''config.yaml'']) d) = None"
        "yaml_Marshal E (createContainerYaml (range_order E (w @ [MkdirAll p0])) cfg c0) = Inr d"
      by blast
    let ?k = "[MkdirAll p0, WriteFile (Join [p0, ''config.yaml'']) d]"
    from Cons.IH [OF rest] obtain visited p c rest' pre where
      ih: "vs = visited @ (p, c) # rest'" "succeed E w1 pre" "written E cfg w1 visited pre"
        "stopsAt E cfg (w1 @ pre) p c w' err"
      by blast
    have "v # vs = (v # visited) @ (p, c) # rest'" using ih(1) by simp
    moreover have "succeed E w (?k @ pre)" using d(1,2,3) ih(2) by (simp add: succeed_append)
    moreover have "written E cfg w (v # visited) (?k @ pre)" using ih(3) d(1,4) v by simp
    moreover have "stopsAt E cfg (w @ (?k @ pre)) p c w' err" using ih(4) d(1) by simp
    ultimately show ?thesis by blast
  qed
qed

lemma directories_target: "directories (map target w) = directories w"
proof -
  have "concat (map (\<lambda>c. case c of MkdirAll p \<Rightarrow> [p] | WriteFile p d \<Rightarrow> []) (map target w))
      = concat (map (\<lambda>c. case c of MkdirAll p \<Rightarrow> [p] | WriteFile p d \<Rightarrow> []) w)"
    by (induction w) (simp_all split: fsop.splits)
  then show ?thesis by (simp add: directories_def)
qed

lemma directories_containerCalls:
  "directories (concat (map containerCalls vs)) = remdups (map fst vs)"
proof -
  have "concat (map (\<lambda>c. case c of MkdirAll p \<Rightarrow> [p] | WriteFile p d \<Rightarrow> [])
      (concat (map containerCalls vs))) = map fst vs"
    by (induction vs) (simp_all add: containerCalls_def)
  then show ?thesis by (simp add: directories_def)
qed

subsection \<open>The example runs\<close>

lemmas path_simps = Join_def Clean_def sanitizeFolderName_map reserved_def
lemmas run_simps = writeContainer_def call_def exEnv_def exDenied_def exMarshal_def
  createContainerYaml_eq setThresholds_def thresholdKey_def

lemma ex_paths:
  "Join [''out'', sanitizeFolderName ''A''] = ''out/A''"
  "Join [''out'', sanitizeFolderName ''B''] = ''out/B''"
  "Join [''out'', sanitizeFolderName ''A/B''] = ''out/A_B''"
  "Join [''out'', sanitizeFolderName ''A:B''] = ''out/A_B''"
  "Join [''out/A'', sanitizeFolderName ''B''] = ''out/A/B''"
  "Join [''out/A'', sanitizeFolderName ''C''] = ''out/A/C''"
  "Join [''out/A'', sanitizeFolderName ''D''] = ''out/A/D''"
  "Join [''out/A/C'', sanitizeFolderName ''X''] = ''out/A/C/X''"
  "Join [''out/A'', ''config.yaml''] = ''out/A/config.yaml''"
  "Join [''out/B'', ''config.yaml''] = ''out/B/config.yaml''"
  "Join [''out/A_B'', ''config.yaml''] = ''out/A_B/config.yaml''"
  "Join [''out/A/B'', ''config.yaml''] = ''out/A/B/config.yaml''"
  by (simp_all add: path_simps)

lemma exOuter_run:
  "createStructureAndYaml exEnv ''out'' [exOuter] (exConfig exTwoKeys) [] =
     (None, [MkdirAll ''out/A'', WriteFile ''out/A/config.yaml'' ''E1-M1;'',
             MkdirAll ''out/A/B'', WriteFile ''out/A/B/config.yaml'' ''E2-M2;''])"
  unfolding exOuter_def exNested_def exMeta_def
  by (simp add: ex_paths run_simps exOuter_unique [unfolded exOuter_def exNested_def exMeta_def]
      exNested_unique [unfolded exNested_def exMeta_def] exThreshold_def)

lemma exSanitized_run:
  "createStructureAndYaml exEnv ''out'' exSanitized (exConfig []) [] =
     (None, [MkdirAll ''out/A_B'', WriteFile ''out/A_B/config.yaml'' [],
             MkdirAll ''out/A_B'', WriteFile ''out/A_B/config.yaml'' []])"
  unfolding exSanitized_def
  by (simp add: ex_paths run_simps uniqueThresholds_def)

lemma exFailTree_run:
  "createStructureAndYaml (exDenied ''out/A/C'') ''out'' exFailTree (exConfig exTwoKeys) [] =
     (Some ''error creating directory out/A/C: permission denied'',
      [MkdirAll ''out/A'', WriteFile ''out/A/config.yaml'' ''E1-M1;'', MkdirAll ''out/A/C''])"
  unfolding exFailTree_def exMeta_def
  by (simp add: ex_paths run_simps uniqueThresholds_def thresholdStep_def exConfig_def exTwoKeys_def exThreshold_def)

lemma exFailTree_preorder:
  "map fst (preorder ''out'' exFailTree) = [''out/A'', ''out/A/C'', ''out/A/C/X'', ''out/A/D'', ''out/B'']"
  unfolding exFailTree_def exMeta_def
  by (simp add: ex_paths)

lemma exBadYaml_run:
  "createStructureAndYaml exBadYaml ''out'' [exOuter] (exConfig exTwoKeys) [] =
     (Some ''error marshaling YAML for B: cannot marshal'',
      [MkdirAll ''out/A'', WriteFile ''out/A/config.yaml'' ''E1-M1;'', MkdirAll ''out/A/B''])"
  unfolding exOuter_def exNested_def exMeta_def
  by (simp add: ex_paths run_simps exBadYaml_def
      exOuter_unique [unfolded exOuter_def exNested_def exMeta_def]
      exNested_unique [unfolded exNested_def exMeta_def] exThreshold_def)

lemma exWriteDenied_run:
  "createStructureAndYaml (exWriteDenied ''out/A/config.yaml'') ''out'' [exOuter]
       (exConfig exTwoKeys) [] =
     (Some ''error writing YAML file out/A/config.yaml: disk full'',
      [MkdirAll ''out/A'', WriteFile ''out/A/config.yaml'' ''E1-M1;''])"
  unfolding exOuter_def exNested_def exMeta_def
  by (simp add: ex_paths run_simps exWriteDenied_def
      exOuter_unique [unfolded exOuter_def exNested_def exMeta_def]
      exNested_unique [unfolded exNested_def exMeta_def] exThreshold_def)

lemma exOuter_preorder:
  "preorder ''out'' [exOuter] = [(''out/A'', exOuter), (''out/A/B'', exNested)]"
  by (simp add: exOuter_def exNested_def exMeta_def ex_paths)


subsection \<open>The claims about the materializer\<close>

text \<open>
  C5. The claim: every container of the input tree produces exactly one directory and one
  \<open>config.yaml\<close>, at a path that mirrors the nesting. Two siblings named \<open>A/B\<close> and \<open>A:B\<close>
  both sanitize to \<open>A_B\<close>: the run makes the directory \<open>out/A_B\<close> once, finds it the second
  time, and writes \<open>out/A_B/config.yaml\<close> twice, so two containers leave one directory and
  one file.
\<close>

theorem sanitized_names_share_directory:
  "createStructureAndYaml exEnv ''out'' exSanitized (exConfig []) [] =
     (None, [MkdirAll ''out/A_B'', WriteFile ''out/A_B/config.yaml'' [],
             MkdirAll ''out/A_B'', WriteFile ''out/A_B/config.yaml'' []])
   \<and> countContainers exSanitized = 2
   \<and> directories (snd (createStructureAndYaml exEnv ''out'' exSanitized (exConfig []) []))
       = [''out/A_B'']
   \<and> length (directories (snd (createStructureAndYaml exEnv ''out'' exSanitized (exConfig []) [])))
       \<noteq> countContainers exSanitized"
  by (simp add: exSanitized_run directories_def) (simp add: exSanitized_def)

text \<open>
  C5, amended. In a run that returns no error, the calls made are, for each container of
  the tree in depth-first pre-order (a container before the containers nested in it,
  siblings in the order of the input), one \<open>MkdirAll\<close> of its path followed by one
  \<open>WriteFile\<close> of \<open>config.yaml\<close> in that path, where the path joins the path of the
  enclosing container (the base path at the top) and the sanitized name; every call
  succeeded, and there is one such pair of calls per container. When the paths of the
  containers are pairwise different, the directories are as many as the containers.
\<close>

theorem preorder_calls:
  assumes "createStructureAndYaml E basePath containers yamlConfig w = (None, w')"
  shows "\<exists>new. w' = w @ new
           \<and> map target new = concat (map containerCalls (preorder basePath containers))
           \<and> succeed E w new
           \<and> length (preorder basePath containers) = countContainers containers
           \<and> (distinct (map fst (preorder basePath containers))
                \<longrightarrow> length (directories new) = countContainers containers)"
proof -
  from assms have "writeAll E yamlConfig (preorder basePath containers) w = (None, w')"
    by (simp add: createStructureAndYaml_writeAll)
  from writeAll_success [OF this] obtain new where
    new: "w' = w @ new" "map target new = concat (map containerCalls (preorder basePath containers))"
      "succeed E w new"
    by blast
  have "directories new = remdups (map fst (preorder basePath containers))"
    using new(2) directories_target [of new] by (simp add: directories_containerCalls)
  then have "distinct (map fst (preorder basePath containers))
       \<longrightarrow> length (directories new) = countContainers containers"
    using length_preorder(1) [of basePath containers] by (auto simp: distinct_remdups_id)
  with new show ?thesis by (auto simp: length_preorder)
qed

theorem preorder_calls_witness:
  "createStructureAndYaml exEnv ''out'' [exOuter] (exConfig exTwoKeys) [] =
     (None, [MkdirAll ''out/A'', WriteFile ''out/A/config.yaml'' ''E1-M1;'',
             MkdirAll ''out/A/B'', WriteFile ''out/A/B/config.yaml'' ''E2-M2;''])
   \<and> map fst (preorder ''out'' [exOuter]) = [''out/A'', ''out/A/B'']
   \<and> map target [MkdirAll ''out/A'', WriteFile ''out/A/config.yaml'' ''E1-M1;'',
             MkdirAll ''out/A/B'', WriteFile ''out/A/B/config.yaml'' ''E2-M2;'']
       = concat (map containerCalls (preorder ''out'' [exOuter]))
   \<and> succeed exEnv [] [MkdirAll ''out/A'', WriteFile ''out/A/config.yaml'' ''E1-M1;'',
             MkdirAll ''out/A/B'', WriteFile ''out/A/B/config.yaml'' ''E2-M2;'']
   \<and> countContainers [exOuter] = 2
   \<and> length (directories [MkdirAll ''out/A'', WriteFile ''out/A/config.yaml'' ''E1-M1;'',
             MkdirAll ''out/A/B'', WriteFile ''out/A/B/config.yaml'' ''E2-M2;'']) = 2"
proof -
  have p: "map fst (preorder ''out'' [exOuter]) = [''out/A'', ''out/A/B'']"
    by (simp add: exOuter_def exNested_def exMeta_def ex_paths)
  have c: "countContainers [exOuter] = 2"
    by (simp add: exOuter_def exNested_def exMeta_def)
  from preorder_calls [OF exOuter_run] exOuter_run p c show ?thesis
    by auto
qed

text \<open>
  C7. A run that returns no error made the calls of all containers, every call
  succeeded and every serialization succeeded, its data being what was written: a
  failing \<open>MkdirAll\<close>, serialization or \<open>WriteFile\<close> always ends in an error. A run that
  returns an error stopped at one container of the pre-order list: before it, the
  containers that precede it were written in full, all successfully; then the \<open>MkdirAll\<close>
  of that container failed, or it succeeded and the serializer failed, or both succeeded
  and the \<open>WriteFile\<close> failed. The failing step is the last thing the run did, and the
  error names the path (the container, for the serializer) and the cause that the
  failing step returned. So no call is made for the containers after it in the list,
  which hold its descendants and all later siblings, and no call follows the failing
  one: the program does not go back to what it has written.
\<close>

theorem fail_fast:
  "(createStructureAndYaml E basePath containers yamlConfig w = (None, w')
      \<longrightarrow> (\<exists>new. w' = w @ new \<and> succeed E w new
             \<and> written E yamlConfig w (preorder basePath containers) new))
   \<and> (createStructureAndYaml E basePath containers yamlConfig w = (Some err, w')
      \<longrightarrow> (\<exists>visited p c rest pre.
           preorder basePath containers = visited @ (p, c) # rest
         \<and> succeed E w pre \<and> written E yamlConfig w visited pre
         \<and> ((w' = w @ pre @ [MkdirAll p]
              \<and> (\<exists>cause. os_error E (w @ pre) (MkdirAll p) = Some cause
                    \<and> err = ''error creating directory '' @ p @ '': '' @ cause))
           \<or> (w' = w @ pre @ [MkdirAll p] \<and> os_error E (w @ pre) (MkdirAll p) = None
              \<and> (\<exists>cause. yaml_Marshal E (createContainerYaml (range_order E w') yamlConfig c) = Inl cause
                    \<and> err = ''error marshaling YAML for '' @ Container.ContainerName c @ '': '' @ cause))
           \<or> (\<exists>d cause. w' = w @ pre @ [MkdirAll p, WriteFile (Join [p, ''config.yaml'']) d]
                \<and> os_error E (w @ pre) (MkdirAll p) = None
                \<and> yaml_Marshal E (createContainerYaml (range_order E (w @ pre @ [MkdirAll p]))
                     yamlConfig c) = Inr d
                \<and> os_error E (w @ pre @ [MkdirAll p]) (WriteFile (Join [p, ''config.yaml'']) d)
                     = Some cause
                \<and> err = ''error writing YAML file '' @ Join [p, ''config.yaml''] @ '': '' @ cause))))"
proof (intro conjI impI)
  assume "createStructureAndYaml E basePath containers yamlConfig w = (None, w')"
  then have "writeAll E yamlConfig (preorder basePath containers) w = (None, w')"
    by (simp add: createStructureAndYaml_writeAll)
  from writeAll_written [OF this]
  show "\<exists>new. w' = w @ new \<and> succeed E w new
             \<and> written E yamlConfig w (preorder basePath containers) new" .
next
  assume "createStructureAndYaml E basePath containers yamlConfig w = (Some err, w')"
  then have "writeAll E yamlConfig (preorder basePath containers) w = (Some err, w')"
    by (simp add: createStructureAndYaml_writeAll)
  from writeAll_stops [OF this] obtain visited p c rest pre where
    f: "preorder basePath containers = visited @ (p, c) # rest"
      "succeed E w pre" "written E yamlConfig w visited pre"
      "stopsAt E yamlConfig (w @ pre) p c w' err"
    by blast
  from f(4) have "(w' = w @ pre @ [MkdirAll p]
              \<and> (\<exists>cause. os_error E (w @ pre) (MkdirAll p) = Some cause
                    \<and> err = ''error creating directory '' @ p @ '': '' @ cause))
           \<or> (w' = w @ pre @ [MkdirAll p] \<and> os_error E (w @ pre) (MkdirAll p) = None
              \<and> (\<exists>cause. yaml_Marshal E (createContainerYaml (range_order E w') yamlConfig c) = Inl cause
                    \<and> err = ''error marshaling YAML for '' @ Container.ContainerName c @ '': '' @ cause))
           \<or> (\<exists>d cause. w' = w @ pre @ [MkdirAll p, WriteFile (Join [p, ''config.yaml'']) d]
                \<and> os_error E (w @ pre) (MkdirAll p) = None
                \<and> yaml_Marshal E (createContainerYaml (range_order E (w @ pre @ [MkdirAll p]))
                     yamlConfig c) = Inr d
                \<and> os_error E (w @ pre @ [MkdirAll p]) (WriteFile (Join [p, ''config.yaml'']) d)
                     = Some cause
                \<and> err = ''error writing YAML file '' @ Join [p, ''config.yaml''] @ '': '' @ cause)"
    unfolding stopsAt_def by simp
  with f(1,2,3) show "\<exists>visited p c rest pre.
           preorder basePath containers = visited @ (p, c) # rest
         \<and> succeed E w pre \<and> written E yamlConfig w visited pre
         \<and> ((w' = w @ pre @ [MkdirAll p]
              \<and> (\<exists>cause. os_error E (w @ pre) (MkdirAll p) = Some cause
                    \<and> err = ''error creating directory '' @ p @ '': '' @ cause))
           \<or> (w' = w @ pre @ [MkdirAll p] \<and> os_error E (w @ pre) (MkdirAll p) = None
              \<and> (\<exists>cause. yaml_Marshal E (createContainerYaml (range_order E w') yamlConfig c) = Inl cause
                    \<and> err = ''error marshaling YAML for '' @ Container.ContainerName c @ '': '' @ cause))
           \<or> (\<exists>d cause. w' = w @ pre @ [MkdirAll p, WriteFile (Join [p, ''config.yaml'']) d]
                \<and> os_error E (w @ pre) (MkdirAll p) = None
                \<and> yaml_Marshal E (createContainerYaml (range_order E (w @ pre @ [MkdirAll p]))
                     yamlConfig c) = Inr d
                \<and> os_error E (w @ pre @ [MkdirAll p]) (WriteFile (Join [p, ''config.yaml'']) d)
                     = Some cause
                \<and> err = ''error writing YAML file '' @ Join [p, ''config.yaml''] @ '': '' @ cause))"
    by blast
qed

theorem fail_fast_witness:
  "createStructureAndYaml (exDenied ''out/A/C'') ''out'' exFailTree (exConfig exTwoKeys) [] =
     (Some ''error creating directory out/A/C: permission denied'',
      [MkdirAll ''out/A'', WriteFile ''out/A/config.yaml'' ''E1-M1;'', MkdirAll ''out/A/C''])
   \<and> (\<exists>visited p c rest pre.
           preorder ''out'' exFailTree = visited @ (p, c) # rest
         \<and> succeed (exDenied ''out/A/C'') [] pre \<and> written (exDenied ''out/A/C'') (exConfig exTwoKeys) [] visited pre
         \<and> (([MkdirAll ''out/A'', WriteFile ''out/A/config.yaml'' ''E1-M1;'', MkdirAll ''out/A/C''] = [] @ pre @ [MkdirAll p]
              \<and> (\<exists>cause. os_error (exDenied ''out/A/C'') ([] @ pre) (MkdirAll p) = Some cause
                    \<and> ''error creating directory out/A/C: permission denied'' = ''error creating directory '' @ p @ '': '' @ cause))
           \<or> ([MkdirAll ''out/A'', WriteFile ''out/A/config.yaml'' ''E1-M1;'', MkdirAll ''out/A/C''] = [] @ pre @ [MkdirAll p] \<and> os_error (exDenied ''out/A/C'') ([] @ pre) (MkdirAll p) = None
              \<and> (\<exists>cause. yaml_Marshal (exDenied ''out/A/C'') (createContainerYaml (range_order (exDenied ''out/A/C'') [MkdirAll ''out/A'', WriteFile ''out/A/config.yaml'' ''E1-M1;'', MkdirAll ''out/A/C'']) (exConfig exTwoKeys) c) = Inl cause
                    \<and> ''error creating directory out/A/C: permission denied'' = ''error marshaling YAML for '' @ Container.ContainerName c @ '': '' @ cause))
           \<or> (\<exists>d cause. [MkdirAll ''out/A'', WriteFile ''out/A/config.yaml'' ''E1-M1;'', MkdirAll ''out/A/C''] = [] @ pre @ [MkdirAll p, WriteFile (Join [p, ''config.yaml'']) d]
                \<and> os_error (exDenied ''out/A/C'') ([] @ pre) (MkdirAll p) = None
                \<and> yaml_Marshal (exDenied ''out/A/C'') (createContainerYaml (range_order (exDenied ''out/A/C'') ([] @ pre @ [MkdirAll p]))
                     (exConfig exTwoKeys) c) = Inr d
                \<and> os_error (exDenied ''out/A/C'') ([] @ pre @ [MkdirAll p]) (WriteFile (Join [p, ''config.yaml'']) d)
                     = Some cause
                \<and> ''error creating directory out/A/C: permission denied'' = ''error writing YAML file '' @ Join [p, ''config.yaml''] @ '': '' @ cause)))
   \<and> createStructureAndYaml exBadYaml ''out'' [exOuter] (exConfig exTwoKeys) [] =
     (Some ''error marshaling YAML for B: cannot marshal'',
      [MkdirAll ''out/A'', WriteFile ''out/A/config.yaml'' ''E1-M1;'', MkdirAll ''out/A/B''])
   \<and> (\<exists>visited p c rest pre.
           preorder ''out'' [exOuter] = visited @ (p, c) # rest
         \<and> succeed exBadYaml [] pre \<and> written exBadYaml (exConfig exTwoKeys) [] visited pre
         \<and> (([MkdirAll ''out/A'', WriteFile ''out/A/config.yaml'' ''E1-M1;'', MkdirAll ''out/A/B''] = [] @ pre @ [MkdirAll p]
              \<and> (\<exists>cause. os_error exBadYaml ([] @ pre) (MkdirAll p) = Some cause
                    \<and> ''error marshaling YAML for B: cannot marshal'' = ''error creating directory '' @ p @ '': '' @ cause))
           \<or> ([MkdirAll ''out/A'', WriteFile ''out/A/config.yaml'' ''E1-M1;'', MkdirAll ''out/A/B''] = [] @ pre @ [MkdirAll p] \<and> os_error exBadYaml ([] @ pre) (MkdirAll p) = None
              \<and> (\<exists>cause. yaml_Marshal exBadYaml (createContainerYaml (range_order exBadYaml [MkdirAll ''out/A'', WriteFile ''out/A/config.yaml'' ''E1-M1;'', MkdirAll ''out/A/B'']) (exConfig exTwoKeys) c) = Inl cause
                    \<and> ''error marshaling YAML for B: cannot marshal'' = ''error marshaling YAML for '' @ Container.ContainerName c @ '': '' @ cause))
           \<or> (\<exists>d cause. [MkdirAll ''out/A'', WriteFile ''out/A/config.yaml'' ''E1-M1;'', MkdirAll ''out/A/B''] = [] @ pre @ [MkdirAll p, WriteFile (Join [p, ''config.yaml'']) d]
                \<and> os_error exBadYaml ([] @ pre) (MkdirAll p) = None
                \<and> yaml_Marshal exBadYaml (createContainerYaml (range_order exBadYaml ([] @ pre @ [MkdirAll p]))
                     (exConfig exTwoKeys) c) = Inr d
                \<and> os_error exBadYaml ([] @ pre @ [MkdirAll p]) (WriteFile (Join [p, ''config.yaml'']) d)
                     = Some cause
                \<and> ''error marshaling YAML for B: cannot marshal'' = ''error writing YAML file '' @ Join [p, ''config.yaml''] @ '': '' @ cause)))
   \<and> createStructureAndYaml (exWriteDenied ''out/A/config.yaml'') ''out'' [exOuter] (exConfig exTwoKeys) [] =
     (Some ''error writing YAML file out/A/config.yaml: disk full'',
      [MkdirAll ''out/A'', WriteFile ''out/A/config.yaml'' ''E1-M1;''])
   \<and> (\<exists>visited p c rest pre.
           preorder ''out'' [exOuter] = visited @ (p, c) # rest
         \<and> succeed (exWriteDenied ''out/A/config.yaml'') [] pre \<and> written (exWriteDenied ''out/A/config.yaml'') (exConfig exTwoKeys) [] visited pre
         \<and> (([MkdirAll ''out/A'', WriteFile ''out/A/config.yaml'' ''E1-M1;''] = [] @ pre @ [MkdirAll p]
              \<and> (\<exists>cause. os_error (exWriteDenied ''out/A/config.yaml'') ([] @ pre) (MkdirAll p) = Some cause
                    \<and> ''error writing YAML file out/A/config.yaml: disk full'' = ''error creating directory '' @ p @ '': '' @ cause))
           \<or> ([MkdirAll ''out/A'', WriteFile ''out/A/config.yaml'' ''E1-M1;''] = [] @ pre @ [MkdirAll p] \<and> os_error (exWriteDenied ''out/A/config.yaml'') ([] @ pre) (MkdirAll p) = None
              \<and> (\<exists>cause. yaml_Marshal (exWriteDenied ''out/A/config.yaml'') (createContainerYaml (range_order (exWriteDenied ''out/A/config.yaml'') [MkdirAll ''out/A'', WriteFile ''out/A/config.yaml'' ''E1-M1;'']) (exConfig exTwoKeys) c) = Inl cause
                    \<and> ''error writing YAML file out/A/config.yaml: disk full'' = ''error marshaling YAML for '' @ Container.ContainerName c @ '': '' @ cause))
           \<or> (\<exists>d cause. [MkdirAll ''out/A'', WriteFile ''out/A/config.yaml'' ''E1-M1;''] = [] @ pre @ [MkdirAll p, WriteFile (Join [p, ''config.yaml'']) d]
                \<and> os_error (exWriteDenied ''out/A/config.yaml'') ([] @ pre) (MkdirAll p) = None
                \<and> yaml_Marshal (exWriteDenied ''out/A/config.yaml'') (createContainerYaml (range_order (exWriteDenied ''out/A/config.yaml'') ([] @ pre @ [MkdirAll p]))
                     (exConfig exTwoKeys) c) = Inr d
                \<and> os_error (exWriteDenied ''out/A/config.yaml'') ([] @ pre @ [MkdirAll p]) (WriteFile (Join [p, ''config.yaml'']) d)
                     = Some cause
                \<and> ''error writing YAML file out/A/config.yaml: disk full'' = ''error writing YAML file '' @ Join [p, ''config.yaml''] @ '': '' @ cause)))
   \<and> createStructureAndYaml exEnv ''out'' [exOuter] (exConfig exTwoKeys) [] =
     (None, [MkdirAll ''out/A'', WriteFile ''out/A/config.yaml'' ''E1-M1;'',
      MkdirAll ''out/A/B'', WriteFile ''out/A/B/config.yaml'' ''E2-M2;''])
   \<and> succeed exEnv [] [MkdirAll ''out/A'', WriteFile ''out/A/config.yaml'' ''E1-M1;'',
      MkdirAll ''out/A/B'', WriteFile ''out/A/B/config.yaml'' ''E2-M2;'']
   \<and> written exEnv (exConfig exTwoKeys) [] (preorder ''out'' [exOuter])
     [MkdirAll ''out/A'', WriteFile ''out/A/config.yaml'' ''E1-M1;'',
      MkdirAll ''out/A/B'', WriteFile ''out/A/B/config.yaml'' ''E2-M2;'']
   \<and> map fst (preorder ''out'' exFailTree)
       = [''out/A'', ''out/A/C'', ''out/A/C/X'', ''out/A/D'', ''out/B'']
   \<and> map fst (preorder ''out'' [exOuter]) = [''out/A'', ''out/A/B'']"
proof (intro conjI)
  show "createStructureAndYaml (exDenied ''out/A/C'') ''out'' exFailTree (exConfig exTwoKeys) [] =
     (Some ''error creating directory out/A/C: permission denied'',
      [MkdirAll ''out/A'', WriteFile ''out/A/config.yaml'' ''E1-M1;'', MkdirAll ''out/A/C''])"
    by (rule exFailTree_run)
  show "\<exists>visited p c rest pre.
           preorder ''out'' exFailTree = visited @ (p, c) # rest
         \<and> succeed (exDenied ''out/A/C'') [] pre \<and> written (exDenied ''out/A/C'') (exConfig exTwoKeys) [] visited pre
         \<and> (([MkdirAll ''out/A'', WriteFile ''out/A/config.yaml'' ''E1-M1;'', MkdirAll ''out/A/C''] = [] @ pre @ [MkdirAll p]
              \<and> (\<exists>cause. os_error (exDenied ''out/A/C'') ([] @ pre) (MkdirAll p) = Some cause
                    \<and> ''error creating directory out/A/C: permission denied'' = ''error creating directory '' @ p @ '': '' @ cause))
           \<or> ([MkdirAll ''out/A'', WriteFile ''out/A/config.yaml'' ''E1-M1;'', MkdirAll ''out/A/C''] = [] @ pre @ [MkdirAll p] \<and> os_error (exDenied ''out/A/C'') ([] @ pre) (MkdirAll p) = None
              \<and> (\<exists>cause. yaml_Marshal (exDenied ''out/A/C'') (createContainerYaml (range_order (exDenied ''out/A/C'') [MkdirAll ''out/A'', WriteFile ''out/A/config.yaml'' ''E1-M1;'', MkdirAll ''out/A/C'']) (exConfig exTwoKeys) c) = Inl cause
                    \<and> ''error creating directory out/A/C: permission denied'' = ''error marshaling YAML for '' @ Container.ContainerName c @ '': '' @ cause))
           \<or> (\<exists>d cause. [MkdirAll ''out/A'', WriteFile ''out/A/config.yaml'' ''E1-M1;'', MkdirAll ''out/A/C''] = [] @ pre @ [MkdirAll p, WriteFile (Join [p, ''config.yaml'']) d]
                \<and> os_error (exDenied ''out/A/C'') ([] @ pre) (MkdirAll p) = None
                \<and> yaml_Marshal (exDenied ''out/A/C'') (createContainerYaml (range_order (exDenied ''out/A/C'') ([] @ pre @ [MkdirAll p]))
                     (exConfig exTwoKeys) c) = Inr d
                \<and> os_error (exDenied ''out/A/C'') ([] @ pre @ [MkdirAll p]) (WriteFile (Join [p, ''config.yaml'']) d)
                     = Some cause
                \<and> ''error creating directory out/A/C: permission denied'' = ''error writing YAML file '' @ Join [p, ''config.yaml''] @ '': '' @ cause))"
    using fail_fast [of "exDenied ''out/A/C''" "''out''" "exFailTree" "exConfig exTwoKeys" "[]"
        "[MkdirAll ''out/A'', WriteFile ''out/A/config.yaml'' ''E1-M1;'', MkdirAll ''out/A/C'']"
        "''error creating directory out/A/C: permission denied''"]
      exFailTree_run
    by blast
  show "createStructureAndYaml exBadYaml ''out'' [exOuter] (exConfig exTwoKeys) [] =
     (Some ''error marshaling YAML for B: cannot marshal'',
      [MkdirAll ''out/A'', WriteFile ''out/A/config.yaml'' ''E1-M1;'', MkdirAll ''out/A/B''])"
    by (rule exBadYaml_run)
  show "\<exists>visited p c rest pre.
           preorder ''out'' [exOuter] = visited @ (p, c) # rest
         \<and> succeed exBadYaml [] pre \<and> written exBadYaml (exConfig exTwoKeys) [] visited pre
         \<and> (([MkdirAll ''out/A'', WriteFile ''out/A/config.yaml'' ''E1-M1;'', MkdirAll ''out/A/B''] = [] @ pre @ [MkdirAll p]
              \<and> (\<exists>cause. os_error exBadYaml ([] @ pre) (MkdirAll p) = Some cause
                    \<and> ''error marshaling YAML for B: cannot marshal'' = ''error creating directory '' @ p @ '': '' @ cause))
           \<or> ([MkdirAll ''out/A'', WriteFile ''out/A/config.yaml'' ''E1-M1;'', MkdirAll ''out/A/B''] = [] @ pre @ [MkdirAll p] \<and> os_error exBadYaml ([] @ pre) (MkdirAll p) = None
              \<and> (\<exists>cause. yaml_Marshal exBadYaml (createContainerYaml (range_order exBadYaml [MkdirAll ''out/A'', WriteFile ''out/A/config.yaml'' ''E1-M1;'', MkdirAll ''out/A/B'']) (exConfig exTwoKeys) c) = Inl cause
                    \<and> ''error marshaling YAML for B: cannot marshal'' = ''error marshaling YAML for '' @ Container.ContainerName c @ '': '' @ cause))
           \<or> (\<exists>d cause. [MkdirAll ''out/A'', WriteFile ''out/A/config.yaml'' ''E1-M1;'', MkdirAll ''out/A/B''] = [] @ pre @ [MkdirAll p, WriteFile (Join [p, ''config.yaml'']) d]
                \<and> os_error exBadYaml ([] @ pre) (MkdirAll p) = None
                \<and> yaml_Marshal exBadYaml (createContainerYaml (range_order exBadYaml ([] @ pre @ [MkdirAll p]))
                     (exConfig exTwoKeys) c) = Inr d
                \<and> os_error exBadYaml ([] @ pre @ [MkdirAll p]) (WriteFile (Join [p, ''config.yaml'']) d)
                     = Some cause
                \<and> ''error marshaling YAML for B: cannot marshal'' = ''error writing YAML file '' @ Join [p, ''config.yaml''] @ '': '' @ cause))"
    using fail_fast [of "exBadYaml" "''out''" "[exOuter]" "exConfig exTwoKeys" "[]"
        "[MkdirAll ''out/A'', WriteFile ''out/A/config.yaml'' ''E1-M1;'', MkdirAll ''out/A/B'']"
        "''error marshaling YAML for B: cannot marshal''"]
      exBadYaml_run
    by blast
  show "createStructureAndYaml (exWriteDenied ''out/A/config.yaml'') ''out'' [exOuter] (exConfig exTwoKeys) [] =
     (Some ''error writing YAML file out/A/config.yaml: disk full'',
      [MkdirAll ''out/A'', WriteFile ''out/A/config.yaml'' ''E1-M1;''])"
    by (rule exWriteDenied_run)
  show "\<exists>visited p c rest pre.
           preorder ''out'' [exOuter] = visited @ (p, c) # rest
         \<and> succeed (exWriteDenied ''out/A/config.yaml'') [] pre \<and> written (exWriteDenied ''out/A/config.yaml'') (exConfig exTwoKeys) [] visited pre
         \<and> (([MkdirAll ''out/A'', WriteFile ''out/A/config.yaml'' ''E1-M1;''] = [] @ pre @ [MkdirAll p]
              \<and> (\<exists>cause. os_error (exWriteDenied ''out/A/config.yaml'') ([] @ pre) (MkdirAll p) = Some cause
                    \<and> ''error writing YAML file out/A/config.yaml: disk full'' = ''error creating directory '' @ p @ '': '' @ cause))
           \<or> ([MkdirAll ''out/A'', WriteFile ''out/A/config.yaml'' ''E1-M1;''] = [] @ pre @ [MkdirAll p] \<and> os_error (exWriteDenied ''out/A/config.yaml'') ([] @ pre) (MkdirAll p) = None
              \<and> (\<exists>cause. yaml_Marshal (exWriteDenied ''out/A/config.yaml'') (createContainerYaml (range_order (exWriteDenied ''out/A/config.yaml'') [MkdirAll ''out/A'', WriteFile ''out/A/config.yaml'' ''E1-M1;'']) (exConfig exTwoKeys) c) = Inl cause
                    \<and> ''error writing YAML file out/A/config.yaml: disk full'' = ''error marshaling YAML for '' @ Container.ContainerName c @ '': '' @ cause))
           \<or> (\<exists>d cause. [MkdirAll ''out/A'', WriteFile ''out/A/config.yaml'' ''E1-M1;''] = [] @ pre @ [MkdirAll p, WriteFile (Join [p, ''config.yaml'']) d]
                \<and> os_error (exWriteDenied ''out/A/config.yaml'') ([] @ pre) (MkdirAll p) = None
                \<and> yaml_Marshal (exWriteDenied ''out/A/config.yaml'') (createContainerYaml (range_order (exWriteDenied ''out/A/config.yaml'') ([] @ pre @ [MkdirAll p]))
                     (exConfig exTwoKeys) c) = Inr d
                \<and> os_error (exWriteDenied ''out/A/config.yaml'') ([] @ pre @ [MkdirAll p]) (WriteFile (Join [p, ''config.yaml'']) d)
                     = Some cause
                \<and> ''error writing YAML file out/A/config.yaml: disk full'' = ''error writing YAML file '' @ Join [p, ''config.yaml''] @ '': '' @ cause))"
    using fail_fast [of "exWriteDenied ''out/A/config.yaml''" "''out''" "[exOuter]" "exConfig exTwoKeys" "[]"
        "[MkdirAll ''out/A'', WriteFile ''out/A/config.yaml'' ''E1-M1;'']"
        "''error writing YAML file out/A/config.yaml: disk full''"]
      exWriteDenied_run
    by blast
  show "createStructureAndYaml exEnv ''out'' [exOuter] (exConfig exTwoKeys) [] =
     (None, [MkdirAll ''out/A'', WriteFile ''out/A/config.yaml'' ''E1-M1;'',
      MkdirAll ''out/A/B'', WriteFile ''out/A/B/config.yaml'' ''E2-M2;''])"
    by (rule exOuter_run)
  show "succeed exEnv [] [MkdirAll ''out/A'', WriteFile ''out/A/config.yaml'' ''E1-M1;'',
      MkdirAll ''out/A/B'', WriteFile ''out/A/B/config.yaml'' ''E2-M2;'']"
    using fail_fast [of exEnv "''out''" "[exOuter]" "exConfig exTwoKeys" "[]"
        "[MkdirAll ''out/A'', WriteFile ''out/A/config.yaml'' ''E1-M1;'',
      MkdirAll ''out/A/B'', WriteFile ''out/A/B/config.yaml'' ''E2-M2;'']"]
      exOuter_run
    by auto
  show "written exEnv (exConfig exTwoKeys) [] (preorder ''out'' [exOuter])
     [MkdirAll ''out/A'', WriteFile ''out/A/config.yaml'' ''E1-M1;'',
      MkdirAll ''out/A/B'', WriteFile ''out/A/B/config.yaml'' ''E2-M2;'']"
    using fail_fast [of exEnv "''out''" "[exOuter]" "exConfig exTwoKeys" "[]"
        "[MkdirAll ''out/A'', WriteFile ''out/A/config.yaml'' ''E1-M1;'',
      MkdirAll ''out/A/B'', WriteFile ''out/A/B/config.yaml'' ''E2-M2;'']"]
      exOuter_run
    by auto
  show "map fst (preorder ''out'' exFailTree)
       = [''out/A'', ''out/A/C'', ''out/A/C/X'', ''out/A/D'', ''out/B'']"
    by (rule exFailTree_preorder)
  show "map fst (preorder ''out'' [exOuter]) = [''out/A'', ''out/A/B'']"
    by (simp add: exOuter_preorder)
qed



end
